theory Spec2Isabelle
  imports Main "HOL-Library.Sublist"
begin

section \<open>JavaScript values\<close>

text \<open>
  The handlers of the leave management service are TypeScript functions running on
  AWS Lambda. Strings are byte strings (UTF-8). A value that JavaScript may leave
  \<open>undefined\<close> (a missing property, an unset environment variable) is a
  \<open>string option\<close>, \<open>None\<close> being \<open>undefined\<close>. Request payloads are typed as the
  handlers use them: every property is a string or is missing.
\<close>

text \<open>What a \<open>throw\<close> carries: \<open>new Error(msg)\<close>, the runtime's own errors, and the
  exception of an AWS client whose request is rejected (by the name of the exception).\<close>

datatype exn = Error string | TypeError | SyntaxError | ServiceException string

text \<open>\<open>!v\<close>: a string is falsy when it is undefined or empty.\<close>

fun falsy :: "string option \<Rightarrow> bool" where
  "falsy None = True"
| "falsy (Some s) = (s = [])"

text \<open>\<open>${v}\<close> in a template literal.\<close>

fun interp :: "string option \<Rightarrow> string" where
  "interp None = ''undefined''"
| "interp (Some s) = s"

text \<open>\<open>v || d\<close> with a string default.\<close>

fun or_default :: "string option \<Rightarrow> string \<Rightarrow> string" where
  "or_default None d = d"
| "or_default (Some s) d = (if s = [] then d else s)"

text \<open>\<open>s.replace(pat, rep)\<close> with a string pattern: the first occurrence only.\<close>

fun replace :: "string \<Rightarrow> string \<Rightarrow> string \<Rightarrow> string" where
  "replace pat rep [] = (if pat = [] then rep else [])"
| "replace pat rep (c # cs) =
     (if prefix pat (c # cs) then rep @ drop (length pat) (c # cs)
      else c # replace pat rep cs)"

text \<open>\<open>s.toLowerCase()\<close> on ASCII letters.\<close>

definition toLowerCase :: "string \<Rightarrow> string" where
  "toLowerCase s =
     map (\<lambda>c. if 65 \<le> (of_char c :: nat) \<and> (of_char c :: nat) \<le> 90
              then char_of (of_char c + (32::nat)) else c) s"

text \<open>The process environment (\<open>process.env\<close>), read when the module is loaded.\<close>

record env =
  TABLE_NAME :: "string option"
  SES_EMAIL :: "string option"
  STATE_MACHINE_ARN :: "string option"
  JWT_SECRET :: "string option"

section \<open>The authorizer (hello-world/app.ts)\<close>

record authorizer_event =
  authorizationToken :: "string option"
  methodArn :: string

record statement =
  Action :: string
  Effect :: string
  Resource :: string

record policy_document =
  Version :: string
  Statement :: "statement list"

record authorizer_result =
  principalId :: "string option"
  policyDocument :: policy_document
  context' :: "(string \<times> string option) list option"

text \<open>
  \<open>jwt.verify(token, secret)\<close> belongs to the jsonwebtoken library. It is a parameter of
  the model: given the token and the secret it throws, or returns the decoded payload,
  of which the handler reads the \<open>email\<close> property only.
\<close>

type_synonym jwt_verify = "string \<Rightarrow> string \<Rightarrow> exn + string option"

text \<open>The body of the \<open>try\<close> block. Calling \<open>replace\<close> on an undefined token is a
  TypeError.\<close>

definition authorizer_try :: "jwt_verify \<Rightarrow> env \<Rightarrow> authorizer_event \<Rightarrow> exn + authorizer_result" where
  "authorizer_try verify e event =
     (case authorizationToken event of
        None \<Rightarrow> Inl TypeError
      | Some t \<Rightarrow>
          (let token = replace ''Bearer '' '''' t; secret = JWT_SECRET e in
           if falsy secret then Inl (Error ''Missing JWT_SECRET environment variable'')
           else (case verify token (or_default secret '''') of
                   Inl err \<Rightarrow> Inl err
                 | Inr email \<Rightarrow>
                     Inr \<lparr> principalId = email,
                           policyDocument =
                             \<lparr> Version = ''2012-10-17'',
                               Statement = [\<lparr> Action = ''execute-api:Invoke'',
                                              Effect = ''Allow'',
                                              Resource = methodArn event \<rparr>] \<rparr>,
                           context' = Some [(''userEmail'', email)] \<rparr>)))"

text \<open>The handler: whatever the \<open>try\<close> block throws is caught and answered with the
  deny policy.\<close>

definition authorizer :: "jwt_verify \<Rightarrow> env \<Rightarrow> authorizer_event \<Rightarrow> exn + authorizer_result" where
  "authorizer verify e event =
     (case authorizer_try verify e event of
        Inr policy \<Rightarrow> Inr policy
      | Inl err \<Rightarrow>
          Inr \<lparr> principalId = Some ''unauthorized'',
                policyDocument =
                  \<lparr> Version = ''2012-10-17'',
                    Statement = [\<lparr> Action = ''execute-api:Invoke'',
                                   Effect = ''Deny'',
                                   Resource = methodArn event \<rparr>] \<rparr>,
                context' = None \<rparr>)"

text \<open>Verification succeeds: a token is present, the secret is configured, and
  \<open>jwt.verify\<close> returns a payload whose email is \<open>email\<close>.\<close>

definition verified :: "jwt_verify \<Rightarrow> env \<Rightarrow> authorizer_event \<Rightarrow> string option \<Rightarrow> bool" where
  "verified verify e event email =
     (\<exists>t s. authorizationToken event = Some t \<and> JWT_SECRET e = Some s \<and> s \<noteq> [] \<and>
            verify (replace ''Bearer '' '''' t) s = Inr email)"

section \<open>Events and responses\<close>

text \<open>
  Two versions of the handlers are in the repository. The functions of the first
  (the file that follows the deployment template) keep their names: \<open>applyLeave\<close>,
  \<open>sendApprovalEmail\<close>, \<open>processApproval\<close>, \<open>notifyUser\<close>. Those of
  hello-world/app.ts that differ carry the suffix \<open>_hw\<close>.
\<close>

record leave_details =
  leaveType :: "string option"
  startDate :: "string option"
  endDate :: "string option"
  reason :: "string option"

text \<open>The input of a workflow execution and the event of the Lambda functions that the
  workflow invokes (\<open>event: any\<close>): every property may be undefined.\<close>

record wf_event =
  requestId :: "string option"
  userEmail :: "string option"
  approverEmail :: "string option"
  leaveDetails :: "leave_details option"
  taskToken :: "string option"
  apiBaseUrl :: "string option"
  approvalStatus :: "string option"

text \<open>
  The body of an HTTP request, by what \<open>JSON.parse(event.body || "{}")\<close> makes of it:
  no body (parsed as the empty object), text that is not JSON (SyntaxError), the
  literal \<open>null\<close> (reading a property of it is a TypeError), or an object. Any other
  JSON value has no properties and behaves as the empty object.
\<close>

datatype http_body = NoBody | Unparsable | JsonNull | JsonObject "string \<rightharpoonup> string"

fun parse_body :: "http_body \<Rightarrow> exn + (string \<rightharpoonup> string)" where
  "parse_body NoBody = Inr Map.empty"
| "parse_body Unparsable = Inl SyntaxError"
| "parse_body JsonNull = Inl TypeError"
| "parse_body (JsonObject b) = Inr b"

text \<open>\<open>authorizerContext\<close> is \<open>requestContext.authorizer\<close>, the context the authorizer's
  policy carries; \<open>body'\<close> is \<open>event.body\<close>.\<close>

record request_context =
  domainName :: "string option"
  stage :: "string option"
  authorizerContext :: "(string \<rightharpoonup> string) option"

record proxy_event =
  body' :: http_body
  queryStringParameters :: "(string \<rightharpoonup> string) option"
  requestContext :: request_context

text \<open>The pages of hello-world/app.ts, by their template and the values interpolated in
  it (request id, status message, status colour, year of the footer).\<close>

datatype page = MissingParametersPage | StatusPage string string string nat | InternalServerErrorPage

text \<open>A response body: \<open>JSON.stringify\<close> of an object with string properties, or a page.\<close>

datatype payload = Json "(string \<times> string) list" | Html page

record response =
  statusCode :: nat
  headers :: "(string \<times> string) list"
  body :: payload

section \<open>The AWS services\<close>

record email =
  ToAddresses :: "string option list"
  HtmlData :: string
  Subject :: string
  Source :: "string option"

text \<open>The commands the handlers send: PutItem (TableName, Item with its \<open>S\<close> values),
  StartExecution (stateMachineArn, input), SendTaskSuccess (taskToken, output),
  SendEmail.\<close>

datatype command =
    PutItem string "(string \<times> string option) list"
  | StartExecution string wf_event
  | SendTaskSuccess string "(string \<times> string) list"
  | SendEmail email

text \<open>A task token of Step Functions waits with the state of its execution until a
  SendTaskSuccess consumes it.\<close>

datatype task = Waiting wf_event | Consumed

text \<open>
  The state outside the handlers: the DynamoDB table by its key \<open>requestId\<close>; the
  executions Step Functions has started and not yet run; its task tokens; the
  executions whose task has succeeded (state and task output) and whose next state has
  not yet run; the commands the services have accepted, oldest first; and whether each
  service answers (a service that does not answer throws and changes nothing).
\<close>

record world =
  table :: "string \<rightharpoonup> (string \<times> string) list"
  started :: "wf_event list"
  tasks :: "string \<rightharpoonup> task"
  ready :: "(wf_event \<times> (string \<times> string) list) list"
  log :: "command list"
  dynamo_ok :: bool
  sfn_ok :: bool
  ses_ok :: bool

fun defined_item :: "(string \<times> string option) list \<Rightarrow> (string \<times> string) list option" where
  "defined_item [] = Some []"
| "defined_item ((k, None) # kvs) = None"
| "defined_item ((k, Some v) # kvs) = map_option (\<lambda>r. (k, v) # r) (defined_item kvs)"

text \<open>
  \<open>dynamo.send\<close>. The handlers build PutItem with TableName and Item only, no
  ConditionExpression: DynamoDB then writes the item under its key whether or not an
  item with that key exists. An item with an undefined value or without a non-empty key
  is rejected.
\<close>

fun dynamo_send :: "command \<Rightarrow> world \<Rightarrow> exn + world" where
  "dynamo_send (PutItem t kvs) w =
     (if \<not> dynamo_ok w then Inl (ServiceException ''ServiceUnavailable'')
      else (case defined_item kvs of
              None \<Rightarrow> Inl (ServiceException ''ValidationException'')
            | Some it \<Rightarrow>
                (case map_of it ''requestId'' of
                   None \<Rightarrow> Inl (ServiceException ''ValidationException'')
                 | Some k \<Rightarrow>
                     if k = [] then Inl (ServiceException ''ValidationException'')
                     else Inr (w\<lparr> table := (table w)(k \<mapsto> it),
                                   log := log w @ [PutItem t kvs] \<rparr>))))"
| "dynamo_send c w = Inl (ServiceException ''UnknownOperationException'')"

text \<open>
  \<open>sfn.send\<close>. StartExecution records the execution. SendTaskSuccess is accepted for
  a token that waits: the token is consumed and the execution is ready to go on with the
  output. For a token Step Functions never issued it throws InvalidToken, for a consumed
  one TaskTimedOut.
\<close>

fun sfn_send :: "command \<Rightarrow> world \<Rightarrow> exn + world" where
  "sfn_send (StartExecution arn inp) w =
     (if \<not> sfn_ok w then Inl (ServiceException ''ServiceUnavailable'')
      else Inr (w\<lparr> started := started w @ [inp],
                    log := log w @ [StartExecution arn inp] \<rparr>))"
| "sfn_send (SendTaskSuccess tok out) w =
     (if \<not> sfn_ok w then Inl (ServiceException ''ServiceUnavailable'')
      else (case tasks w tok of
              None \<Rightarrow> Inl (ServiceException ''InvalidToken'')
            | Some Consumed \<Rightarrow> Inl (ServiceException ''TaskTimedOut'')
            | Some (Waiting st) \<Rightarrow>
                Inr (w\<lparr> tasks := (tasks w)(tok \<mapsto> Consumed),
                        ready := ready w @ [(st, out)],
                        log := log w @ [SendTaskSuccess tok out] \<rparr>)))"
| "sfn_send c w = Inl (ServiceException ''UnknownOperationException'')"

fun ses_send :: "command \<Rightarrow> world \<Rightarrow> exn + world" where
  "ses_send (SendEmail m) w =
     (if \<not> ses_ok w then Inl (ServiceException ''ServiceUnavailable'')
      else Inr (w\<lparr> log := log w @ [SendEmail m] \<rparr>))"
| "ses_send c w = Inl (ServiceException ''UnknownOperationException'')"

section \<open>Rendering\<close>

text \<open>A number in decimal, as a template literal prints \<open>Date.now()\<close>.\<close>

function show_nat :: "nat \<Rightarrow> string" where
  "show_nat n =
     (if n < 10 then [''0123456789'' ! n]
      else show_nat (n div 10) @ [''0123456789'' ! (n mod 10)])"
  by pat_completeness auto
termination
  by (relation "measure id") auto

declare show_nat.simps [simp del]

text \<open>\<open>encodeURIComponent\<close>: every byte but the unreserved ones (letters, digits and
  \<open>- _ . ! ~ * ' ( )\<close>) is written \<open>%XX\<close> in upper-case hexadecimal.\<close>

definition uri_unreserved :: "char \<Rightarrow> bool" where
  "uri_unreserved c =
     (c \<in> set ''ABCDEFGHIJKLMNOPQRSTUVWXYZabcdefghijklmnopqrstuvwxyz0123456789-_.!~*()''
      \<or> c = CHR 0x27)"

definition percent :: "char \<Rightarrow> string" where
  "percent c = [CHR ''%'', ''0123456789ABCDEF'' ! (of_char c div 16),
                ''0123456789ABCDEF'' ! (of_char c mod 16)]"

definition encodeURIComponent :: "string \<Rightarrow> string" where
  "encodeURIComponent s = concat (map (\<lambda>c. if uri_unreserved c then [c] else percent c) s)"

text \<open>
  The decoding that the HTTP layer applies to a query parameter before the callback
  handler reads it, byte by byte: \<open>%XX\<close> is the byte with the hexadecimal value
  \<open>XX\<close>, every other character stands for itself, and a percent sign that is not
  followed by two hexadecimal digits is malformed. It is the inverse that the links of
  the approval message rely on.
\<close>

definition hex_value :: "char \<Rightarrow> nat option" where
  "hex_value c =
     (let n = (of_char c :: nat)
      in if 48 \<le> n \<and> n \<le> 57 then Some (n - 48)
         else if 65 \<le> n \<and> n \<le> 70 then Some (n - 55)
         else if 97 \<le> n \<and> n \<le> 102 then Some (n - 87)
         else None)"

fun decodeURIComponent :: "string \<Rightarrow> string option" where
  "decodeURIComponent [] = Some []"
| "decodeURIComponent (c # cs) =
     (if c = CHR ''%''
      then (case cs of
              h # l # rest \<Rightarrow>
                (case (hex_value h, hex_value l) of
                   (Some a, Some b) \<Rightarrow>
                     map_option (\<lambda>r. char_of (16 * a + b) # r) (decodeURIComponent rest)
                 | _ \<Rightarrow> None)
            | _ \<Rightarrow> None)
      else map_option (\<lambda>r. c # r) (decodeURIComponent cs))"

text \<open>\<open>JSON.stringify\<close> of a string: quotes, with the quote, the backslash and the
  control characters escaped.\<close>

definition json_escape :: "char \<Rightarrow> string" where
  "json_escape c =
     (if c = CHR 0x22 then [CHR 0x5C, CHR 0x22]
      else if c = CHR 0x5C then [CHR 0x5C, CHR 0x5C]
      else if c = CHR 0x08 then [CHR 0x5C, CHR ''b'']
      else if c = CHR 0x0C then [CHR 0x5C, CHR ''f'']
      else if c = CHR 0x0A then [CHR 0x5C, CHR ''n'']
      else if c = CHR 0x0D then [CHR 0x5C, CHR ''r'']
      else if c = CHR 0x09 then [CHR 0x5C, CHR ''t'']
      else if (of_char c :: nat) < 32
        then [CHR 0x5C, CHR ''u'', CHR ''0'', CHR ''0'',
              ''0123456789abcdef'' ! (of_char c div 16), ''0123456789abcdef'' ! (of_char c mod 16)]
      else [c])"

definition json_string :: "string \<Rightarrow> string" where
  "json_string s = [CHR 0x22] @ concat (map json_escape s) @ [CHR 0x22]"

text \<open>\<open>JSON.stringify\<close> of an object with string properties: an undefined property is
  left out.\<close>

fun json_members :: "(string \<times> string option) list \<Rightarrow> string list" where
  "json_members [] = []"
| "json_members ((k, None) # kvs) = json_members kvs"
| "json_members ((k, Some v) # kvs) = (json_string k @ '':'' @ json_string v) # json_members kvs"

fun join_with :: "string \<Rightarrow> string list \<Rightarrow> string" where
  "join_with sep [] = []"
| "join_with sep [x] = x"
| "join_with sep (x # y # ys) = x @ sep @ join_with sep (y # ys)"

definition json_object :: "(string \<times> string option) list \<Rightarrow> string" where
  "json_object kvs = ''{'' @ join_with '','' (json_members kvs) @ ''}''"

text \<open>\<open>${JSON.stringify(leaveDetails)}\<close>: \<open>JSON.stringify(undefined)\<close> is undefined.\<close>

fun stringify_details :: "leave_details option \<Rightarrow> string" where
  "stringify_details None = ''undefined''"
| "stringify_details (Some d) =
     json_object [(''leaveType'', leaveType d), (''startDate'', startDate d),
                  (''endDate'', endDate d), (''reason'', reason d)]"

section \<open>The handlers that follow the deployment template\<close>

text \<open>
  Each handler takes the state of the services and returns it as the accepted commands
  leave it. A \<open>try\<close> block returns what it throws or returns, with the state at that
  moment. \<open>now\<close> is \<open>Date.now()\<close>. The HTML of the messages is written without the
  line breaks and indentation between its elements. Local names that clash with a
  property name carry a prime.
\<close>

definition applyLeave_try :: "env \<Rightarrow> nat \<Rightarrow> proxy_event \<Rightarrow> world \<Rightarrow> (exn + response) \<times> world" where
  "applyLeave_try e now event w =
     (if falsy (TABLE_NAME e) \<or> falsy (SES_EMAIL e) \<or> falsy (STATE_MACHINE_ARN e)
      then (Inl (Error ''Missing required environment variables''), w)
      else (case parse_body (body' event) of
              Inl err \<Rightarrow> (Inl err, w)
            | Inr b \<Rightarrow>
                if falsy (b ''userEmail'') \<or> falsy (b ''leaveType'') \<or> falsy (b ''startDate'') \<or>
                   falsy (b ''endDate'') \<or> falsy (b ''approverEmail'')
                then (Inr \<lparr> statusCode = 400, headers = [],
                            body = Json [(''message'', ''Missing required fields'')] \<rparr>, w)
                else
                  (let requestId' = ''LEAVE-'' @ show_nat now in
                   case dynamo_send
                          (PutItem (interp (TABLE_NAME e))
                             [(''requestId'', Some requestId'),
                              (''userEmail'', b ''userEmail''),
                              (''approverEmail'', b ''approverEmail''),
                              (''leaveType'', b ''leaveType''),
                              (''startDate'', b ''startDate''),
                              (''endDate'', b ''endDate''),
                              (''reason'', Some (or_default (b ''reason'') ''Not provided'')),
                              (''status'', Some ''PENDING'')]) w of
                     Inl err \<Rightarrow> (Inl err, w)
                   | Inr w1 \<Rightarrow>
                       (let apiBaseUrl' =
                              ''https://'' @ interp (domainName (requestContext event)) @ ''/'' @
                              interp (stage (requestContext event));
                            input =
                              \<lparr> requestId = Some requestId',
                                userEmail = b ''userEmail'',
                                approverEmail = b ''approverEmail'',
                                leaveDetails =
                                  Some \<lparr> leaveType = b ''leaveType'',
                                         startDate = b ''startDate'',
                                         endDate = b ''endDate'',
                                         reason = Some (or_default (b ''reason'') ''Not provided'') \<rparr>,
                                taskToken = None,
                                apiBaseUrl = Some apiBaseUrl',
                                approvalStatus = None \<rparr>
                        in case sfn_send (StartExecution (interp (STATE_MACHINE_ARN e)) input) w1 of
                             Inl err \<Rightarrow> (Inl err, w1)
                           | Inr w2 \<Rightarrow>
                               (Inr \<lparr> statusCode = 200, headers = [],
                                      body = Json [(''message'', ''Leave applied''),
                                                   (''requestId'', requestId')] \<rparr>, w2)))))"

definition applyLeave :: "env \<Rightarrow> nat \<Rightarrow> proxy_event \<Rightarrow> world \<Rightarrow> response \<times> world" where
  "applyLeave e now event w =
     (case applyLeave_try e now event w of
        (Inr r, w') \<Rightarrow> (r, w')
      | (Inl err, w') \<Rightarrow>
          (\<lparr> statusCode = 500, headers = [],
             body = Json [(''message'', ''Internal server error'')] \<rparr>, w'))"

text \<open>The two links of the approval message.\<close>

definition approveUrl :: "wf_event \<Rightarrow> string" where
  "approveUrl event =
     interp (apiBaseUrl event) @ ''/process-approval?requestId='' @ interp (requestId event) @
     ''&action=approve&taskToken='' @ encodeURIComponent (interp (taskToken event))"

definition rejectUrl :: "wf_event \<Rightarrow> string" where
  "rejectUrl event =
     interp (apiBaseUrl event) @ ''/process-approval?requestId='' @ interp (requestId event) @
     ''&action=reject&taskToken='' @ encodeURIComponent (interp (taskToken event))"

text \<open>\<open>sendApprovalEmail\<close> and \<open>notifyUser\<close> build \<open>emailParams\<close> and send it; they log
  what they catch and throw it again: the result is the exception, or the state after
  the message is accepted.\<close>

definition approval_emailParams :: "env \<Rightarrow> wf_event \<Rightarrow> email" where
  "approval_emailParams e event =
     \<lparr> ToAddresses = [approverEmail event],
       HtmlData =
         ''<p>A leave request ('' @ interp (requestId event) @ '') from '' @
         interp (userEmail event) @ '' needs your approval:</p>'' @
         ''<p>Details: '' @ stringify_details (leaveDetails event) @ ''</p>'' @
         ''<p><a href='' @ [CHR 0x22] @ approveUrl event @ [CHR 0x22] @
         ''><button>Approve</button></a> <a href='' @ [CHR 0x22] @ rejectUrl event @
         [CHR 0x22] @ ''><button>Reject</button></a></p>'',
       Subject = ''Leave Approval Request'',
       Source = SES_EMAIL e \<rparr>"

definition sendApprovalEmail :: "env \<Rightarrow> wf_event \<Rightarrow> world \<Rightarrow> exn + world" where
  "sendApprovalEmail e event w = ses_send (SendEmail (approval_emailParams e event)) w"

definition processApproval_try :: "proxy_event \<Rightarrow> world \<Rightarrow> (exn + response) \<times> world" where
  "processApproval_try event w =
     (let queryParams = (case queryStringParameters event of None \<Rightarrow> Map.empty | Some q \<Rightarrow> q);
          requestId' = queryParams ''requestId'';
          action = queryParams ''action'';
          taskToken' = queryParams ''taskToken''
      in if falsy requestId' \<or> falsy action \<or> falsy taskToken'
         then (Inr \<lparr> statusCode = 400, headers = [],
                     body = Json [(''message'', ''Missing required query parameters'')] \<rparr>, w)
         else
           (let approvalStatus' = (if action = Some ''approve'' then ''APPROVED'' else ''REJECTED'')
            in case sfn_send (SendTaskSuccess (interp taskToken')
                                [(''approvalStatus'', approvalStatus')]) w of
                 Inl err \<Rightarrow> (Inl err, w)
               | Inr w1 \<Rightarrow>
                   (Inr \<lparr> statusCode = 200, headers = [],
                          body = Json [(''message'',
                                        ''Leave request '' @ interp requestId' @ '' '' @
                                        toLowerCase approvalStatus')] \<rparr>, w1)))"

definition processApproval :: "proxy_event \<Rightarrow> world \<Rightarrow> response \<times> world" where
  "processApproval event w =
     (case processApproval_try event w of
        (Inr r, w') \<Rightarrow> (r, w')
      | (Inl err, w') \<Rightarrow>
          (\<lparr> statusCode = 500, headers = [],
             body = Json [(''message'', ''Internal server error'')] \<rparr>, w'))"

definition outcome_emailParams :: "env \<Rightarrow> wf_event \<Rightarrow> email" where
  "outcome_emailParams e event =
     (let statusText = (if approvalStatus event = Some ''APPROVED'' then ''APPROVED'' else ''REJECTED'')
      in \<lparr> ToAddresses = [userEmail event],
           HtmlData =
             ''<p>Your leave request ('' @ interp (requestId event) @ '') has been '' @
             statusText @ ''.</p>'' @
             ''<p>Details: '' @ stringify_details (leaveDetails event) @ ''</p>'',
           Subject = ''Leave Request Outcome'',
           Source = SES_EMAIL e \<rparr>)"

definition notifyUser :: "env \<Rightarrow> wf_event \<Rightarrow> world \<Rightarrow> exn + world" where
  "notifyUser e event w = ses_send (SendEmail (outcome_emailParams e event)) w"

section \<open>The handlers of hello-world/app.ts\<close>

text \<open>
  \<open>applyLeave\<close> of hello-world/app.ts takes the request as an event with \<open>requestId\<close>,
  \<open>userEmail\<close>, \<open>approverEmail\<close> and \<open>leaveDetails\<close>, throws again what it
  catches and returns these four properties. It starts no execution. The result is what
  it throws or returns, with the state at that moment.
\<close>

definition applyLeave_hw :: "env \<Rightarrow> wf_event \<Rightarrow> world \<Rightarrow> (exn + wf_event) \<times> world" where
  "applyLeave_hw e event w =
     (if falsy (TABLE_NAME e) \<or> falsy (SES_EMAIL e)
      then (Inl (Error ''Missing required environment variables''), w)
      else if falsy (userEmail event) then (Inl (Error ''Unauthorized: Missing userEmail''), w)
      else (case leaveDetails event of
              None \<Rightarrow> (Inl (Error ''Missing required fields in leaveDetails or approverEmail''), w)
            | Some d \<Rightarrow>
                if falsy (leaveType d) \<or> falsy (startDate d) \<or> falsy (endDate d) \<or>
                   falsy (approverEmail event)
                then (Inl (Error ''Missing required fields in leaveDetails or approverEmail''), w)
                else (case dynamo_send
                             (PutItem (interp (TABLE_NAME e))
                                [(''requestId'', requestId event),
                                 (''userEmail'', userEmail event),
                                 (''approverEmail'', approverEmail event),
                                 (''leaveType'', leaveType d),
                                 (''startDate'', startDate d),
                                 (''endDate'', endDate d),
                                 (''reason'', Some (or_default (reason d) ''Not provided'')),
                                 (''status'', Some ''PENDING'')]) w of
                        Inl err \<Rightarrow> (Inl err, w)
                      | Inr w1 \<Rightarrow>
                          (Inr \<lparr> requestId = requestId event,
                                 userEmail = userEmail event,
                                 approverEmail = approverEmail event,
                                 leaveDetails = leaveDetails event,
                                 taskToken = None, apiBaseUrl = None,
                                 approvalStatus = None \<rparr>, w1))))"

text \<open>\<open>processApproval\<close> of hello-world/app.ts answers with pages. \<open>year\<close> is
  \<open>new Date().getFullYear()\<close>.\<close>

definition processApproval_hw_try :: "nat \<Rightarrow> proxy_event \<Rightarrow> world \<Rightarrow> (exn + response) \<times> world" where
  "processApproval_hw_try year event w =
     (let queryParams = (case queryStringParameters event of None \<Rightarrow> Map.empty | Some q \<Rightarrow> q);
          requestId' = queryParams ''requestId'';
          action = queryParams ''action'';
          taskToken' = queryParams ''taskToken''
      in if falsy requestId' \<or> falsy action \<or> falsy taskToken'
         then (Inr \<lparr> statusCode = 400, headers = [(''Content-Type'', ''text/html'')],
                     body = Html MissingParametersPage \<rparr>, w)
         else
           (let approvalStatus' = (if action = Some ''approve'' then ''APPROVED'' else ''REJECTED'')
            in case sfn_send (SendTaskSuccess (interp taskToken')
                                [(''approvalStatus'', approvalStatus')]) w of
                 Inl err \<Rightarrow> (Inl err, w)
               | Inr w1 \<Rightarrow>
                   (let statusMessage = (if approvalStatus' = ''APPROVED'' then ''approved'' else ''rejected'');
                        statusColor = (if approvalStatus' = ''APPROVED'' then ''#6b8290'' else ''#a68e8e'')
                    in (Inr \<lparr> statusCode = 200, headers = [(''Content-Type'', ''text/html'')],
                              body = Html (StatusPage (interp requestId') statusMessage statusColor year) \<rparr>,
                        w1))))"

definition processApproval_hw :: "nat \<Rightarrow> proxy_event \<Rightarrow> world \<Rightarrow> response \<times> world" where
  "processApproval_hw year event w =
     (case processApproval_hw_try year event w of
        (Inr r, w') \<Rightarrow> (r, w')
      | (Inl err, w') \<Rightarrow>
          (\<lparr> statusCode = 500, headers = [(''Content-Type'', ''text/html'')],
             body = Html InternalServerErrorPage \<rparr>, w'))"

section \<open>The workflow\<close>

text \<open>
  The state machine definition (step-function.asl.json) that the deployment template
  names is not among the sources. The template lets the state machine invoke two
  functions, \<open>sendApprovalEmail\<close> and \<open>notifyUser\<close>, and the specification's control
  flow is create, ask, suspend, resume, outcome: an execution has two task states.
\<close>

text \<open>Modelled from the spec: the first task state of the missing state machine
  definition. It mints a task token, hands it with the execution's input to
  \<open>sendApprovalEmail\<close> and waits for the token. An execution whose task throws fails
  and is dropped.\<close>

definition ask_state :: "env \<Rightarrow> string \<Rightarrow> world \<Rightarrow> world" where
  "ask_state e tok w =
     (case started w of
        [] \<Rightarrow> w
      | inp # rest \<Rightarrow>
          (case sendApprovalEmail e (inp\<lparr> taskToken := Some tok \<rparr>)
                  (w\<lparr> started := rest, tasks := (tasks w)(tok \<mapsto> Waiting inp) \<rparr>) of
             Inr w' \<Rightarrow> w'
           | Inl err \<Rightarrow> w\<lparr> started := rest \<rparr>))"

text \<open>Modelled from the spec: the second task state of the missing state machine
  definition. It runs when the token's task has succeeded and hands the execution's
  input, with the \<open>approvalStatus\<close> of the task's output, to \<open>notifyUser\<close>.\<close>

definition outcome_state :: "env \<Rightarrow> world \<Rightarrow> world" where
  "outcome_state e w =
     (case ready w of
        [] \<Rightarrow> w
      | (st, out) # rest \<Rightarrow>
          (case notifyUser e (st\<lparr> approvalStatus := map_of out ''approvalStatus'' \<rparr>)
                  (w\<lparr> ready := rest \<rparr>) of
             Inr w' \<Rightarrow> w'
           | Inl err \<Rightarrow> w\<lparr> ready := rest \<rparr>))"

text \<open>Modelled from the spec: the operations Create and Resume of the specification's
  workflow engine, as the handlers and the missing state machine make them up. Create is
  the HTTP handler, then the workflow's first state with the token \<open>tok\<close> that Step
  Functions mints. Resume is the callback handler, then the workflow's second state.\<close>

definition Create :: "env \<Rightarrow> nat \<Rightarrow> string \<Rightarrow> proxy_event \<Rightarrow> world \<Rightarrow> response \<times> world" where
  "Create e now tok event w =
     (case applyLeave e now event w of (r, w1) \<Rightarrow> (r, ask_state e tok w1))"

definition Resume :: "env \<Rightarrow> proxy_event \<Rightarrow> world \<Rightarrow> response \<times> world" where
  "Resume e event w =
     (case processApproval event w of (r, w1) \<Rightarrow> (r, outcome_state e w1))"

text \<open>The messages the mail service has accepted, oldest first; a stored attribute of a
  request, and its stored status.\<close>

fun sent :: "command list \<Rightarrow> email list" where
  "sent [] = []"
| "sent (SendEmail m # cs) = m # sent cs"
| "sent (c # cs) = sent cs"

definition stored :: "world \<Rightarrow> string \<Rightarrow> string \<Rightarrow> string option" where
  "stored w rid k = (case table w rid of None \<Rightarrow> None | Some it \<Rightarrow> map_of it k)"

definition status_of :: "world \<Rightarrow> string \<Rightarrow> string option" where
  "status_of w rid = (case table w rid of None \<Rightarrow> None | Some it \<Rightarrow> map_of it ''status'')"

text \<open>An empty deployment in which every service answers.\<close>

definition world0 :: world where
  "world0 = \<lparr> table = Map.empty, started = [], tasks = Map.empty, ready = [], log = [],
              dynamo_ok = True, sfn_ok = True, ses_ok = True \<rparr>"

section \<open>Sample data\<close>

text \<open>A sample verifier for concrete runs: it accepts the token \<open>good\<close> under
  the secret \<open>test-secret\<close> and throws on anything else.\<close>

definition sample_verify :: jwt_verify where
  "sample_verify token secret =
     (if token = ''good'' \<and> secret = ''test-secret'' then Inr (Some ''user@example.com'')
      else Inl (Error ''invalid token''))"

definition sample_env :: env where
  "sample_env = \<lparr> TABLE_NAME = Some ''TestTable'', SES_EMAIL = Some ''test@example.com'',
                  STATE_MACHINE_ARN = Some ''arn:aws:states:TestStateMachine'',
                  JWT_SECRET = Some ''test-secret'' \<rparr>"

definition sample_context :: request_context where
  "sample_context =
     \<lparr> domainName = Some ''api.example.com'', stage = Some ''dev'',
       authorizerContext = Some [''userEmail'' \<mapsto> ''user@example.com''] \<rparr>"

text \<open>The body of the repository's tests and README: it carries no \<open>userEmail\<close>.\<close>

definition test_body :: "string \<rightharpoonup> string" where
  "test_body = [''leaveType'' \<mapsto> ''Vacation'', ''startDate'' \<mapsto> ''2025-04-01'',
                ''endDate'' \<mapsto> ''2025-04-05'', ''approverEmail'' \<mapsto> ''approver@example.com'']"

definition apply_event :: "(string \<rightharpoonup> string) \<Rightarrow> proxy_event" where
  "apply_event b =
     \<lparr> body' = JsonObject b, queryStringParameters = None, requestContext = sample_context \<rparr>"

definition resume_event :: "string \<Rightarrow> string \<Rightarrow> string \<Rightarrow> proxy_event" where
  "resume_event rid a tok =
     \<lparr> body' = NoBody,
       queryStringParameters = Some [''requestId'' \<mapsto> rid, ''action'' \<mapsto> a, ''taskToken'' \<mapsto> tok],
       requestContext = sample_context \<rparr>"

definition sample_body :: "string \<rightharpoonup> string" where
  "sample_body = test_body(''userEmail'' \<mapsto> ''user@example.com'')"

text \<open>The input of the execution that \<open>applyLeave\<close> starts for \<open>sample_body\<close> at the time
  1743465600000, and a deployment in which that execution waits with the token \<open>T1\<close>.\<close>

definition sample_input :: wf_event where
  "sample_input =
     \<lparr> requestId = Some ''LEAVE-1743465600000'',
       userEmail = Some ''user@example.com'',
       approverEmail = Some ''approver@example.com'',
       leaveDetails = Some \<lparr> leaveType = Some ''Vacation'', startDate = Some ''2025-04-01'',
                             endDate = Some ''2025-04-05'', reason = Some ''Not provided'' \<rparr>,
       taskToken = None,
       apiBaseUrl = Some ''https://api.example.com/dev'',
       approvalStatus = None \<rparr>"

definition sample_item :: "(string \<times> string) list" where
  "sample_item =
     [(''requestId'', ''LEAVE-1743465600000''), (''userEmail'', ''user@example.com''),
      (''approverEmail'', ''approver@example.com''), (''leaveType'', ''Vacation''),
      (''startDate'', ''2025-04-01''), (''endDate'', ''2025-04-05''),
      (''reason'', ''Not provided''), (''status'', ''PENDING'')]"

definition waiting_world :: world where
  "waiting_world =
     world0\<lparr> table := [''LEAVE-1743465600000'' \<mapsto> sample_item],
             tasks := [''T1'' \<mapsto> Waiting sample_input] \<rparr>"

text \<open>The record and the execution input that \<open>applyLeave\<close> builds for a request id and
  a body, named for the statements below.\<close>

definition leave_item :: "string \<Rightarrow> (string \<rightharpoonup> string) \<Rightarrow> (string \<times> string option) list" where
  "leave_item rid b =
     [(''requestId'', Some rid), (''userEmail'', b ''userEmail''),
      (''approverEmail'', b ''approverEmail''), (''leaveType'', b ''leaveType''),
      (''startDate'', b ''startDate''), (''endDate'', b ''endDate''),
      (''reason'', Some (or_default (b ''reason'') ''Not provided'')),
      (''status'', Some ''PENDING'')]"

definition leave_input :: "string \<Rightarrow> (string \<rightharpoonup> string) \<Rightarrow> string \<Rightarrow> wf_event" where
  "leave_input rid b base =
     \<lparr> requestId = Some rid, userEmail = b ''userEmail'', approverEmail = b ''approverEmail'',
       leaveDetails =
         Some \<lparr> leaveType = b ''leaveType'', startDate = b ''startDate'', endDate = b ''endDate'',
                reason = Some (or_default (b ''reason'') ''Not provided'') \<rparr>,
       taskToken = None, apiBaseUrl = Some base, approvalStatus = None \<rparr>"

text \<open>A creation input is valid when the five required properties are present and
  non-empty; a deployment is configured when the three environment variables are set.\<close>

definition valid_body :: "(string \<rightharpoonup> string) \<Rightarrow> bool" where
  "valid_body b =
     (\<not> (falsy (b ''userEmail'') \<or> falsy (b ''leaveType'') \<or> falsy (b ''startDate'') \<or>
         falsy (b ''endDate'') \<or> falsy (b ''approverEmail'')))"

definition configured :: "env \<Rightarrow> bool" where
  "configured e =
     (\<not> (falsy (TABLE_NAME e) \<or> falsy (SES_EMAIL e) \<or> falsy (STATE_MACHINE_ARN e)))"

text \<open>The deployment after the sample request is created in an empty one, Step
  Functions minting the token \<open>T1\<close>.\<close>

definition created_world :: world where
  "created_world = snd (Create sample_env 1743465600000 ''T1'' (apply_event sample_body) world0)"

text \<open>A second request, of another employee.\<close>

definition other_body :: "string \<rightharpoonup> string" where
  "other_body = [''userEmail'' \<mapsto> ''other@example.com'', ''leaveType'' \<mapsto> ''Sick'',
                 ''startDate'' \<mapsto> ''2025-05-01'', ''endDate'' \<mapsto> ''2025-05-02'',
                 ''approverEmail'' \<mapsto> ''approver@example.com'']"

text \<open>The deployment after the second request is created in the same millisecond as the
  sample request, Step Functions minting the token \<open>T2\<close>.\<close>

definition recreated_world :: world where
  "recreated_world =
     snd (Create sample_env 1743465600000 ''T2'' (apply_event other_body) created_world)"

text \<open>The characters that can occur in an encoded URI component: the unreserved ones,
  the percent sign and the upper-case hexadecimal digits.\<close>

definition uri_char :: "char \<Rightarrow> bool" where
  "uri_char c = (uri_unreserved c \<or> c = CHR ''%'' \<or> c \<in> set ''0123456789ABCDEF'')"
section \<open>Theorems\<close>

lemma verified_try:
  "verified verify e event email \<Longrightarrow>
   authorizer_try verify e event =
     Inr \<lparr> principalId = email,
           policyDocument =
             \<lparr> Version = ''2012-10-17'',
               Statement = [\<lparr> Action = ''execute-api:Invoke'', Effect = ''Allow'',
                              Resource = methodArn event \<rparr>] \<rparr>,
           context' = Some [(''userEmail'', email)] \<rparr>"
  by (auto simp: verified_def authorizer_try_def)

lemma not_verified_try:
  "\<forall>email. \<not> verified verify e event email \<Longrightarrow> \<exists>err. authorizer_try verify e event = Inl err"
  by (cases "JWT_SECRET e")
     (auto simp: verified_def authorizer_try_def split: option.splits sum.splits)

text \<open>
  C10. The authorizer always returns a policy and never throws. When verification
  succeeds the policy allows the invocation of the method, and its principalId and its
  context's userEmail are the verified token's email. For every other input (no token,
  no secret, a verification that throws) it is the deny policy, whose principalId is
  "unauthorized".
\<close>

theorem authorizer_returns_policy:
  "(\<exists>p. authorizer verify e event = Inr p) \<and>
   (verified verify e event email \<longrightarrow>
      (\<exists>p. authorizer verify e event = Inr p \<and> principalId p = email \<and>
           context' p = Some [(''userEmail'', email)] \<and>
           map Effect (Statement (policyDocument p)) = [''Allow''] \<and>
           map Resource (Statement (policyDocument p)) = [methodArn event])) \<and>
   ((\<forall>em. \<not> verified verify e event em) \<longrightarrow>
      (\<exists>p. authorizer verify e event = Inr p \<and> principalId p = Some ''unauthorized'' \<and>
           context' p = None \<and>
           map Effect (Statement (policyDocument p)) = [''Deny''] \<and>
           map Resource (Statement (policyDocument p)) = [methodArn event]))"
proof (intro conjI impI)
  show "\<exists>p. authorizer verify e event = Inr p"
    by (simp add: authorizer_def split: sum.splits)
next
  assume "verified verify e event email"
  from verified_try [OF this]
  show "\<exists>p. authorizer verify e event = Inr p \<and> principalId p = email \<and>
           context' p = Some [(''userEmail'', email)] \<and>
           map Effect (Statement (policyDocument p)) = [''Allow''] \<and>
           map Resource (Statement (policyDocument p)) = [methodArn event]"
    by (simp add: authorizer_def)
next
  assume "\<forall>em. \<not> verified verify e event em"
  from not_verified_try [OF this] obtain err where "authorizer_try verify e event = Inl err" ..
  then show "\<exists>p. authorizer verify e event = Inr p \<and> principalId p = Some ''unauthorized'' \<and>
           context' p = None \<and>
           map Effect (Statement (policyDocument p)) = [''Deny''] \<and>
           map Resource (Statement (policyDocument p)) = [methodArn event]"
    by (simp add: authorizer_def)
qed

theorem authorizer_returns_policy_witness:
  "verified sample_verify sample_env
     \<lparr> authorizationToken = Some ''Bearer good'', methodArn = ''arn:method'' \<rparr>
     (Some ''user@example.com'') \<and>
   (\<exists>p. authorizer sample_verify sample_env
          \<lparr> authorizationToken = Some ''Bearer good'', methodArn = ''arn:method'' \<rparr> = Inr p \<and>
        principalId p = Some ''user@example.com'' \<and>
        context' p = Some [(''userEmail'', Some ''user@example.com'')] \<and>
        map Effect (Statement (policyDocument p)) = [''Allow''] \<and>
        map Resource (Statement (policyDocument p)) = [''arn:method'']) \<and>
   (\<forall>em. \<not> verified sample_verify sample_env
          \<lparr> authorizationToken = Some ''Bearer invalid-token'', methodArn = ''arn:method'' \<rparr> em) \<and>
   (\<exists>p. authorizer sample_verify sample_env
          \<lparr> authorizationToken = Some ''Bearer invalid-token'', methodArn = ''arn:method'' \<rparr> = Inr p \<and>
        principalId p = Some ''unauthorized'' \<and>
        context' p = None \<and>
        map Effect (Statement (policyDocument p)) = [''Deny''] \<and>
        map Resource (Statement (policyDocument p)) = [''arn:method''])"
proof -
  let ?good = "\<lparr> authorizationToken = Some ''Bearer good'', methodArn = ''arn:method'' \<rparr>"
  let ?bad = "\<lparr> authorizationToken = Some ''Bearer invalid-token'', methodArn = ''arn:method'' \<rparr>"
  have v: "verified sample_verify sample_env ?good (Some ''user@example.com'')"
    by (simp add: verified_def sample_verify_def sample_env_def)
  have n: "\<forall>em. \<not> verified sample_verify sample_env ?bad em"
    by (simp add: verified_def sample_verify_def sample_env_def)
  note T1 = authorizer_returns_policy [of sample_verify sample_env ?good "Some ''user@example.com''"]
  note T2 = authorizer_returns_policy [of sample_verify sample_env ?bad None]
  have a: "\<exists>p. authorizer sample_verify sample_env ?good = Inr p \<and>
        principalId p = Some ''user@example.com'' \<and>
        context' p = Some [(''userEmail'', Some ''user@example.com'')] \<and>
        map Effect (Statement (policyDocument p)) = [''Allow''] \<and>
        map Resource (Statement (policyDocument p)) = [''arn:method'']"
    using mp [OF conjunct1 [OF conjunct2 [OF T1]] v] by simp
  have d: "\<exists>p. authorizer sample_verify sample_env ?bad = Inr p \<and>
        principalId p = Some ''unauthorized'' \<and>
        context' p = None \<and>
        map Effect (Statement (policyDocument p)) = [''Deny''] \<and>
        map Resource (Statement (policyDocument p)) = [''arn:method'']"
    using mp [OF conjunct2 [OF conjunct2 [OF T2]] n] by simp
  show ?thesis
    by (rule conjI [OF v conjI [OF a conjI [OF n d]]])
qed

lemma toLowerCase_status:
  "toLowerCase ''APPROVED'' = ''approved''" "toLowerCase ''REJECTED'' = ''rejected''"
  by (code_simp)+

lemma processApproval_try_rejected:
  assumes "queryStringParameters event = Some q"
    and "q ''requestId'' = Some rid" and "rid \<noteq> []"
    and "q ''action'' = Some a" and "a \<noteq> []"
    and "q ''taskToken'' = Some tok" and "tok \<noteq> []"
    and "sfn_send (SendTaskSuccess tok [(''approvalStatus'', if a = ''approve'' then ''APPROVED'' else ''REJECTED'')]) w = Inl err"
  shows "processApproval_try event w = (Inl err, w)"
    and "processApproval_hw_try year event w = (Inl err, w)"
  using assms by (simp_all add: processApproval_try_def processApproval_hw_try_def Let_def)

lemma processApproval_try_accepted:
  assumes "queryStringParameters event = Some q"
    and "q ''requestId'' = Some rid" and "rid \<noteq> []"
    and "q ''action'' = Some a" and "a \<noteq> []"
    and "q ''taskToken'' = Some tok" and "tok \<noteq> []"
    and "sfn_send (SendTaskSuccess tok [(''approvalStatus'', if a = ''approve'' then ''APPROVED'' else ''REJECTED'')]) w = Inr w1"
  shows "processApproval_try event w =
           (Inr \<lparr> statusCode = 200, headers = [],
                  body = Json [(''message'', ''Leave request '' @ rid @ '' '' @
                                 (if a = ''approve'' then ''approved'' else ''rejected''))] \<rparr>, w1)"
    and "processApproval_hw_try year event w =
           (Inr \<lparr> statusCode = 200, headers = [(''Content-Type'', ''text/html'')],
                  body = Html (StatusPage rid (if a = ''approve'' then ''approved'' else ''rejected'')
                                 (if a = ''approve'' then ''#6b8290'' else ''#a68e8e'') year) \<rparr>, w1)"
  using assms by (simp_all add: processApproval_try_def processApproval_hw_try_def Let_def toLowerCase_status)

lemma outcome_state_idle: "ready w = [] \<Longrightarrow> outcome_state e w = w"
  by (simp add: outcome_state_def)

text \<open>
  C2 (counterexample). In an empty deployment, a Resume call with a token that was
  never issued is answered 500 with the generic server error, not with a 400-equivalent
  TokenNotFound.
\<close>

theorem unknown_token_counterexample:
  "statusCode (fst (Resume sample_env (resume_event ''LEAVE-1'' ''approve'' ''never-issued'') world0)) = 500 \<and>
   body (fst (Resume sample_env (resume_event ''LEAVE-1'' ''approve'' ''never-issued'') world0)) =
     Json [(''message'', ''Internal server error'')] \<and>
   statusCode (fst (processApproval_hw 2025 (resume_event ''LEAVE-1'' ''approve'' ''never-issued'') world0)) = 500"
  by (simp add: Resume_def processApproval_def processApproval_try_def processApproval_hw_def
      processApproval_hw_try_def resume_event_def world0_def Let_def)

text \<open>
  C2 (amended). A Resume call whose token is unknown to Step Functions fails with the
  500-equivalent generic server error, in both versions of the handler; it is never
  answered as a success, the state of the services is unchanged (no stored record is
  touched) and no notification is sent.
\<close>

theorem unknown_token_server_error:
  assumes "queryStringParameters event = Some q"
    and "q ''requestId'' = Some rid" and "rid \<noteq> []"
    and "q ''action'' = Some a" and "a \<noteq> []"
    and "q ''taskToken'' = Some tok" and "tok \<noteq> []"
    and "tasks w tok = None"
  shows "processApproval event w =
           (\<lparr> statusCode = 500, headers = [],
              body = Json [(''message'', ''Internal server error'')] \<rparr>, w) \<and>
         processApproval_hw year event w =
           (\<lparr> statusCode = 500, headers = [(''Content-Type'', ''text/html'')],
              body = Html InternalServerErrorPage \<rparr>, w) \<and>
         (ready w = [] \<longrightarrow>
            Resume e event w =
              (\<lparr> statusCode = 500, headers = [],
                 body = Json [(''message'', ''Internal server error'')] \<rparr>, w))"
proof -
  let ?out = "[(''approvalStatus'', if a = ''approve'' then ''APPROVED'' else ''REJECTED'')]"
  from \<open>tasks w tok = None\<close>
  obtain err where rej: "sfn_send (SendTaskSuccess tok ?out) w = Inl err"
    by (cases "sfn_ok w") simp_all
  note t = processApproval_try_rejected [OF assms(1-7) rej]
  have p: "processApproval event w =
           (\<lparr> statusCode = 500, headers = [],
              body = Json [(''message'', ''Internal server error'')] \<rparr>, w)"
    by (simp add: processApproval_def t(1))
  have h: "processApproval_hw year event w =
           (\<lparr> statusCode = 500, headers = [(''Content-Type'', ''text/html'')],
              body = Html InternalServerErrorPage \<rparr>, w)"
    by (simp add: processApproval_hw_def t(2))
  have r: "ready w = [] \<longrightarrow>
            Resume e event w =
              (\<lparr> statusCode = 500, headers = [],
                 body = Json [(''message'', ''Internal server error'')] \<rparr>, w)"
    by (simp add: Resume_def p outcome_state_idle)
  from p h r show ?thesis by (intro conjI)
qed

theorem unknown_token_server_error_witness:
  "tasks world0 ''never-issued'' = None \<and> ready world0 = [] \<and>
   Resume sample_env (resume_event ''LEAVE-1'' ''approve'' ''never-issued'') world0 =
     (\<lparr> statusCode = 500, headers = [],
        body = Json [(''message'', ''Internal server error'')] \<rparr>, world0) \<and>
   processApproval_hw 2025 (resume_event ''LEAVE-1'' ''approve'' ''never-issued'') world0 =
     (\<lparr> statusCode = 500, headers = [(''Content-Type'', ''text/html'')],
        body = Html InternalServerErrorPage \<rparr>, world0)"
proof -
  have t: "tasks world0 ''never-issued'' = None" and r: "ready world0 = []"
    by (simp_all add: world0_def)
  have q: "queryStringParameters (resume_event ''LEAVE-1'' ''approve'' ''never-issued'') =
             Some [''requestId'' \<mapsto> ''LEAVE-1'', ''action'' \<mapsto> ''approve'', ''taskToken'' \<mapsto> ''never-issued'']"
    by (simp add: resume_event_def)
  note T = unknown_token_server_error [OF q _ _ _ _ _ _ t, of "''LEAVE-1''" "''approve''" 2025 sample_env]
  have T': "processApproval (resume_event ''LEAVE-1'' ''approve'' ''never-issued'') world0 =
           (\<lparr> statusCode = 500, headers = [],
              body = Json [(''message'', ''Internal server error'')] \<rparr>, world0) \<and>
         processApproval_hw 2025 (resume_event ''LEAVE-1'' ''approve'' ''never-issued'') world0 =
           (\<lparr> statusCode = 500, headers = [(''Content-Type'', ''text/html'')],
              body = Html InternalServerErrorPage \<rparr>, world0) \<and>
         (ready world0 = [] \<longrightarrow>
            Resume sample_env (resume_event ''LEAVE-1'' ''approve'' ''never-issued'') world0 =
              (\<lparr> statusCode = 500, headers = [],
                 body = Json [(''message'', ''Internal server error'')] \<rparr>, world0))"
    by (rule T) simp_all
  from T' r t show ?thesis by simp
qed

lemma sfn_accepts:
  "sfn_ok w \<Longrightarrow> tasks w tok = Some (Waiting st) \<Longrightarrow>
   sfn_send (SendTaskSuccess tok out) w =
     Inr (w\<lparr> tasks := (tasks w)(tok \<mapsto> Consumed), ready := ready w @ [(st, out)],
             log := log w @ [SendTaskSuccess tok out] \<rparr>)"
  by simp

lemma sent_append: "sent (xs @ ys) = sent xs @ sent ys"
  by (induction xs rule: sent.induct) simp_all

lemma outcome_state_notifies:
  "ready w = (st, out) # rest \<Longrightarrow> ses_ok w \<Longrightarrow>
   outcome_state e w =
     w\<lparr> ready := rest,
        log := log w @
          [SendEmail
             \<lparr> ToAddresses = [userEmail st],
               HtmlData = ''<p>Your leave request ('' @ interp (requestId st) @ '') has been '' @
                          (if map_of out ''approvalStatus'' = Some ''APPROVED'' then ''APPROVED'' else ''REJECTED'') @
                          ''.</p>'' @ ''<p>Details: '' @ stringify_details (leaveDetails st) @ ''</p>'',
               Subject = ''Leave Request Outcome'', Source = SES_EMAIL e \<rparr>] \<rparr>"
  by (simp add: outcome_state_def notifyUser_def outcome_emailParams_def)

text \<open>
  C5. A Resume call with a non-empty decision (and request id and token) reports
  APPROVED to the workflow exactly when the decision is the literal "approve", and
  REJECTED for every other value: the status in the output of the accepted
  SendTaskSuccess, the status the workflow resumes with, the answer of both versions of
  the handler and the status of the outcome notification all follow that one equality
  test.
\<close>

theorem decision_mapping:
  assumes "queryStringParameters event = Some q"
    and "q ''requestId'' = Some rid" and "rid \<noteq> []"
    and "q ''action'' = Some a" and "a \<noteq> []"
    and "q ''taskToken'' = Some tok" and "tok \<noteq> []"
    and "sfn_ok w" and "tasks w tok = Some (Waiting st)"
  shows "\<exists>s. (s = ''APPROVED'') = (a = ''approve'') \<and> (s = ''REJECTED'') = (a \<noteq> ''approve'') \<and>
           log (snd (processApproval event w)) = log w @ [SendTaskSuccess tok [(''approvalStatus'', s)]] \<and>
           ready (snd (processApproval event w)) = ready w @ [(st, [(''approvalStatus'', s)])] \<and>
           fst (processApproval event w) =
             \<lparr> statusCode = 200, headers = [],
               body = Json [(''message'', ''Leave request '' @ rid @ '' '' @ toLowerCase s)] \<rparr> \<and>
           snd (processApproval_hw year event w) = snd (processApproval event w) \<and>
           fst (processApproval_hw year event w) =
             \<lparr> statusCode = 200, headers = [(''Content-Type'', ''text/html'')],
               body = Html (StatusPage rid (toLowerCase s)
                              (if a = ''approve'' then ''#6b8290'' else ''#a68e8e'') year) \<rparr> \<and>
           (ready w = [] \<and> ses_ok w \<longrightarrow>
              sent (log (snd (Resume e event w))) =
                sent (log w) @
                [\<lparr> ToAddresses = [userEmail st],
                   HtmlData = ''<p>Your leave request ('' @ interp (requestId st) @ '') has been '' @
                              s @ ''.</p>'' @ ''<p>Details: '' @ stringify_details (leaveDetails st) @ ''</p>'',
                   Subject = ''Leave Request Outcome'', Source = SES_EMAIL e \<rparr>])"
proof -
  define s where "s = (if a = ''approve'' then ''APPROVED'' else ''REJECTED'')"
  define w1 where "w1 = w\<lparr> tasks := (tasks w)(tok \<mapsto> Consumed),
                           ready := ready w @ [(st, [(''approvalStatus'', s)])],
                           log := log w @ [SendTaskSuccess tok [(''approvalStatus'', s)]] \<rparr>"
  have acc: "sfn_send (SendTaskSuccess tok [(''approvalStatus'', if a = ''approve'' then ''APPROVED'' else ''REJECTED'')]) w = Inr w1"
    unfolding w1_def s_def by (rule sfn_accepts [OF assms(8,9)])
  note t = processApproval_try_accepted [OF assms(1-7) acc]
  have low: "toLowerCase s = (if a = ''approve'' then ''approved'' else ''rejected'')"
    by (simp add: s_def toLowerCase_status)
  have p: "processApproval event w =
             (\<lparr> statusCode = 200, headers = [],
                body = Json [(''message'', ''Leave request '' @ rid @ '' '' @ toLowerCase s)] \<rparr>, w1)"
    by (simp add: processApproval_def t(1) low)
  have h: "processApproval_hw year event w =
             (\<lparr> statusCode = 200, headers = [(''Content-Type'', ''text/html'')],
                body = Html (StatusPage rid (toLowerCase s)
                              (if a = ''approve'' then ''#6b8290'' else ''#a68e8e'') year) \<rparr>, w1)"
    by (simp add: processApproval_hw_def t(2) low)
  have s1: "(s = ''APPROVED'') = (a = ''approve'')" and s2: "(s = ''REJECTED'') = (a \<noteq> ''approve'')"
    by (simp_all add: s_def)
  have n: "ready w = [] \<and> ses_ok w \<longrightarrow>
              sent (log (snd (Resume e event w))) =
                sent (log w) @
                [\<lparr> ToAddresses = [userEmail st],
                   HtmlData = ''<p>Your leave request ('' @ interp (requestId st) @ '') has been '' @
                              s @ ''.</p>'' @ ''<p>Details: '' @ stringify_details (leaveDetails st) @ ''</p>'',
                   Subject = ''Leave Request Outcome'', Source = SES_EMAIL e \<rparr>]"
  proof (intro impI, elim conjE)
    assume e: "ready w = []" and o: "ses_ok w"
    have "ready w1 = [(st, [(''approvalStatus'', s)])]" and "ses_ok w1"
      using e o by (simp_all add: w1_def)
    from outcome_state_notifies [OF this, of e]
    show "sent (log (snd (Resume e event w))) =
                sent (log w) @
                [\<lparr> ToAddresses = [userEmail st],
                   HtmlData = ''<p>Your leave request ('' @ interp (requestId st) @ '') has been '' @
                              s @ ''.</p>'' @ ''<p>Details: '' @ stringify_details (leaveDetails st) @ ''</p>'',
                   Subject = ''Leave Request Outcome'', Source = SES_EMAIL e \<rparr>]"
      by (simp add: Resume_def p sent_append w1_def s_def)
  qed
  show ?thesis
    apply (rule exI [of _ s])
    apply (simp only: p h fst_conv snd_conv)
    using s1 s2 n
    apply (simp add: w1_def p)
    done
qed

theorem decision_mapping_witness:
  "sfn_ok waiting_world \<and> tasks waiting_world ''T1'' = Some (Waiting sample_input) \<and>
   log (snd (processApproval (resume_event ''LEAVE-1743465600000'' ''approve'' ''T1'') waiting_world)) =
     [SendTaskSuccess ''T1'' [(''approvalStatus'', ''APPROVED'')]] \<and>
   log (snd (processApproval (resume_event ''LEAVE-1743465600000'' ''Approve'' ''T1'') waiting_world)) =
     [SendTaskSuccess ''T1'' [(''approvalStatus'', ''REJECTED'')]] \<and>
   log (snd (processApproval (resume_event ''LEAVE-1743465600000'' ''reject'' ''T1'') waiting_world)) =
     [SendTaskSuccess ''T1'' [(''approvalStatus'', ''REJECTED'')]]"
proof -
  have ok: "sfn_ok waiting_world" and t: "tasks waiting_world ''T1'' = Some (Waiting sample_input)"
    and l: "log waiting_world = []"
    by (simp_all add: waiting_world_def world0_def)
  have q: "\<And>a. queryStringParameters (resume_event ''LEAVE-1743465600000'' a ''T1'') =
             Some [''requestId'' \<mapsto> ''LEAVE-1743465600000'', ''action'' \<mapsto> a, ''taskToken'' \<mapsto> ''T1'']"
    by (simp add: resume_event_def)
  have f1: "\<And>a. [''requestId'' \<mapsto> ''LEAVE-1743465600000'', ''action'' \<mapsto> a, ''taskToken'' \<mapsto> ''T1''] ''requestId''
              = Some ''LEAVE-1743465600000''"
    and f2: "\<And>a. [''requestId'' \<mapsto> ''LEAVE-1743465600000'', ''action'' \<mapsto> a, ''taskToken'' \<mapsto> ''T1''] ''action''
              = Some a"
    and f3: "\<And>a. [''requestId'' \<mapsto> ''LEAVE-1743465600000'', ''action'' \<mapsto> a, ''taskToken'' \<mapsto> ''T1''] ''taskToken''
              = Some ''T1''"
    and n1: "''LEAVE-1743465600000'' \<noteq> []" and n2: "''T1'' \<noteq> []"
    and e1: "''approve'' \<noteq> []" and e2: "''Approve'' \<noteq> []" and e3: "''reject'' \<noteq> []"
    by simp_all
  note M = decision_mapping [where year = 2025 and e = sample_env, OF q f1 n1 f2 _ f3 n2 ok t]
  have a1: "log (snd (processApproval (resume_event ''LEAVE-1743465600000'' ''approve'' ''T1'') waiting_world)) =
     [SendTaskSuccess ''T1'' [(''approvalStatus'', ''APPROVED'')]]"
    using M [OF e1] by (elim exE conjE) (simp add: l)
  have a2: "log (snd (processApproval (resume_event ''LEAVE-1743465600000'' ''Approve'' ''T1'') waiting_world)) =
     [SendTaskSuccess ''T1'' [(''approvalStatus'', ''REJECTED'')]]"
    using M [OF e2] by (elim exE conjE) (simp add: l)
  have a3: "log (snd (processApproval (resume_event ''LEAVE-1743465600000'' ''reject'' ''T1'') waiting_world)) =
     [SendTaskSuccess ''T1'' [(''approvalStatus'', ''REJECTED'')]]"
    using M [OF e3] by (elim exE conjE) (simp add: l)
  from ok t a1 a2 a3 show ?thesis by (intro conjI)
qed

lemma not_falsy: "(\<not> falsy v) = (\<exists>s. v = Some s \<and> s \<noteq> [])"
  by (cases v) simp_all

lemma defined_leave_item:
  assumes "valid_body b"
  shows "\<exists>it. defined_item (leave_item rid b) = Some it \<and> map_of it ''requestId'' = Some rid \<and>
           map_of it ''status'' = Some ''PENDING'' \<and>
           map_of it ''userEmail'' = b ''userEmail'' \<and>
           map_of it ''approverEmail'' = b ''approverEmail'' \<and>
           map_of it ''leaveType'' = b ''leaveType'' \<and>
           map_of it ''startDate'' = b ''startDate'' \<and>
           map_of it ''endDate'' = b ''endDate''"
proof -
  from assms obtain u l s d a where
    "b ''userEmail'' = Some u" "b ''leaveType'' = Some l" "b ''startDate'' = Some s"
    "b ''endDate'' = Some d" "b ''approverEmail'' = Some a"
    unfolding valid_body_def de_Morgan_disj not_falsy by (elim conjE exE)
  then show ?thesis by (simp add: leave_item_def)
qed

lemma applyLeave_try_valid:
  assumes "configured e" and "parse_body (body' event) = Inr b" and "valid_body b"
  shows "applyLeave_try e now event w =
     (case dynamo_send (PutItem (interp (TABLE_NAME e)) (leave_item (''LEAVE-'' @ show_nat now) b)) w of
        Inl err \<Rightarrow> (Inl err, w)
      | Inr w1 \<Rightarrow>
          (case sfn_send (StartExecution (interp (STATE_MACHINE_ARN e))
                  (leave_input (''LEAVE-'' @ show_nat now) b
                     (''https://'' @ interp (domainName (requestContext event)) @ ''/'' @
                      interp (stage (requestContext event))))) w1 of
             Inl err \<Rightarrow> (Inl err, w1)
           | Inr w2 \<Rightarrow>
               (Inr \<lparr> statusCode = 200, headers = [],
                      body = Json [(''message'', ''Leave applied''),
                                   (''requestId'', ''LEAVE-'' @ show_nat now)] \<rparr>, w2)))"
  using assms
  by (simp add: applyLeave_try_def configured_def valid_body_def leave_item_def leave_input_def Let_def
        del: dynamo_send.simps sfn_send.simps split: sum.splits)

lemma applyLeave_try_invalid:
  assumes "configured e" and "parse_body (body' event) = Inr b" and "\<not> valid_body b"
  shows "applyLeave_try e now event w =
     (Inr \<lparr> statusCode = 400, headers = [],
            body = Json [(''message'', ''Missing required fields'')] \<rparr>, w)"
  using assms
  by (simp add: applyLeave_try_def configured_def valid_body_def)

lemma dynamo_put_leave_item:
  assumes "valid_body b" and "dynamo_ok w"
  shows "\<exists>it. defined_item (leave_item (''LEAVE-'' @ n) b) = Some it \<and>
           map_of it ''status'' = Some ''PENDING'' \<and>
           dynamo_send (PutItem t (leave_item (''LEAVE-'' @ n) b)) w =
             Inr (w\<lparr> table := (table w)((''LEAVE-'' @ n) \<mapsto> it),
                     log := log w @ [PutItem t (leave_item (''LEAVE-'' @ n) b)] \<rparr>)"
proof -
  from defined_leave_item [OF assms(1), of "''LEAVE-'' @ n"]
  obtain it where "defined_item (leave_item (''LEAVE-'' @ n) b) = Some it"
    "map_of it ''requestId'' = Some (''LEAVE-'' @ n)" "map_of it ''status'' = Some ''PENDING''"
    by (elim exE conjE)
  with assms(2) show ?thesis by simp
qed

lemma applyLeave_stored:
  assumes "configured e" and "parse_body (body' event) = Inr b" and "valid_body b"
    and "dynamo_ok w"
  shows "\<exists>it. defined_item (leave_item (''LEAVE-'' @ show_nat now) b) = Some it \<and>
           map_of it ''status'' = Some ''PENDING'' \<and>
           applyLeave e now event w =
             (if sfn_ok w
              then (\<lparr> statusCode = 200, headers = [],
                      body = Json [(''message'', ''Leave applied''),
                                   (''requestId'', ''LEAVE-'' @ show_nat now)] \<rparr>,
                    w\<lparr> table := (table w)((''LEAVE-'' @ show_nat now) \<mapsto> it),
                       started := started w @
                         [leave_input (''LEAVE-'' @ show_nat now) b
                            (''https://'' @ interp (domainName (requestContext event)) @ ''/'' @
                             interp (stage (requestContext event)))],
                       log := log w @
                         [PutItem (interp (TABLE_NAME e)) (leave_item (''LEAVE-'' @ show_nat now) b),
                          StartExecution (interp (STATE_MACHINE_ARN e))
                            (leave_input (''LEAVE-'' @ show_nat now) b
                               (''https://'' @ interp (domainName (requestContext event)) @ ''/'' @
                                interp (stage (requestContext event))))] \<rparr>)
              else (\<lparr> statusCode = 500, headers = [],
                      body = Json [(''message'', ''Internal server error'')] \<rparr>,
                    w\<lparr> table := (table w)((''LEAVE-'' @ show_nat now) \<mapsto> it),
                       log := log w @
                         [PutItem (interp (TABLE_NAME e))
                            (leave_item (''LEAVE-'' @ show_nat now) b)] \<rparr>))"
proof -
  from dynamo_put_leave_item [OF assms(3,4), of "show_nat now" "interp (TABLE_NAME e)"]
  obtain it where it: "defined_item (leave_item (''LEAVE-'' @ show_nat now) b) = Some it"
    "map_of it ''status'' = Some ''PENDING''"
    "dynamo_send (PutItem (interp (TABLE_NAME e)) (leave_item (''LEAVE-'' @ show_nat now) b)) w =
       Inr (w\<lparr> table := (table w)((''LEAVE-'' @ show_nat now) \<mapsto> it),
               log := log w @ [PutItem (interp (TABLE_NAME e)) (leave_item (''LEAVE-'' @ show_nat now) b)] \<rparr>)"
    by (elim exE conjE)
  show ?thesis
    apply (rule exI [of _ it])
    apply (simp only: it(1,2) applyLeave_def applyLeave_try_valid [OF assms(1-3)] it(3))
    apply simp
    done
qed

lemma applyLeave_unavailable:
  assumes "configured e" and "parse_body (body' event) = Inr b" and "valid_body b"
    and "\<not> dynamo_ok w"
  shows "applyLeave e now event w =
           (\<lparr> statusCode = 500, headers = [],
              body = Json [(''message'', ''Internal server error'')] \<rparr>, w)"
  using assms(4)
  by (simp add: applyLeave_def applyLeave_try_valid [OF assms(1-3)] leave_item_def)

lemma ask_state_sends:
  "started w = inp # rest \<Longrightarrow> ses_ok w \<Longrightarrow>
   ask_state e tok w =
     w\<lparr> started := rest, tasks := (tasks w)(tok \<mapsto> Waiting inp),
        log := log w @ [SendEmail (approval_emailParams e (inp\<lparr> taskToken := Some tok \<rparr>))] \<rparr>"
  by (simp add: ask_state_def sendApprovalEmail_def)

lemma status_of_stored:
  "map_of it ''status'' = Some s \<Longrightarrow> table w rid = Some it \<Longrightarrow> status_of w rid = Some s"
  by (simp add: status_of_def)

lemma Create_split:
  "fst (Create e now tok event w) = fst (applyLeave e now event w)"
  "snd (Create e now tok event w) = ask_state e tok (snd (applyLeave e now event w))"
  by (simp_all add: Create_def split: prod.splits)

lemma Resume_split:
  "fst (Resume e event w) = fst (processApproval event w)"
  "snd (Resume e event w) = outcome_state e (snd (processApproval event w))"
  by (simp_all add: Resume_def split: prod.splits)

text \<open>
  The order of the effects of \<open>applyLeave\<close>, for a body that carries all five fields
  the handler reads, \<open>userEmail\<close> among them: the record with status PENDING is
  written first and the workflow (which sends the ask) is started only after that write
  has succeeded. When both services answer, the handler returns 200 with the requestId,
  the accepted commands are the PutItem followed by the StartExecution, and the stored
  status is PENDING; when only the workflow start fails the record is already stored as
  PENDING; when the write fails nothing is started. With the workflow's first state, the
  ask message follows the PutItem and the StartExecution.
\<close>

lemma put_before_start:
  fixes e :: env and now :: nat and event :: proxy_event and w :: world and tok :: string
  defines "rid \<equiv> ''LEAVE-'' @ show_nat now"
    and "base \<equiv> ''https://'' @ interp (domainName (requestContext event)) @ ''/'' @
                 interp (stage (requestContext event))"
  assumes "configured e" and "parse_body (body' event) = Inr b" and "valid_body b"
  shows "(dynamo_ok w \<and> sfn_ok w \<longrightarrow>
            fst (applyLeave e now event w) =
              \<lparr> statusCode = 200, headers = [],
                body = Json [(''message'', ''Leave applied''), (''requestId'', rid)] \<rparr> \<and>
            log (snd (applyLeave e now event w)) =
              log w @ [PutItem (interp (TABLE_NAME e)) (leave_item rid b),
                       StartExecution (interp (STATE_MACHINE_ARN e)) (leave_input rid b base)] \<and>
            status_of (snd (applyLeave e now event w)) rid = Some ''PENDING'') \<and>
         (dynamo_ok w \<and> \<not> sfn_ok w \<longrightarrow>
            statusCode (fst (applyLeave e now event w)) = 500 \<and>
            log (snd (applyLeave e now event w)) =
              log w @ [PutItem (interp (TABLE_NAME e)) (leave_item rid b)] \<and>
            status_of (snd (applyLeave e now event w)) rid = Some ''PENDING'') \<and>
         (\<not> dynamo_ok w \<longrightarrow>
            statusCode (fst (applyLeave e now event w)) = 500 \<and>
            snd (applyLeave e now event w) = w) \<and>
         map_of (leave_item rid b) ''status'' = Some (Some ''PENDING'') \<and>
         (dynamo_ok w \<and> sfn_ok w \<and> ses_ok w \<and> started w = [] \<longrightarrow>
            log (snd (Create e now tok event w)) =
              log w @ [PutItem (interp (TABLE_NAME e)) (leave_item rid b),
                       StartExecution (interp (STATE_MACHINE_ARN e)) (leave_input rid b base),
                       SendEmail (approval_emailParams e
                                    ((leave_input rid b base)\<lparr> taskToken := Some tok \<rparr>))])"
proof (intro conjI impI)
  show "map_of (leave_item rid b) ''status'' = Some (Some ''PENDING'')"
    by (simp add: leave_item_def)
next
  assume "\<not> dynamo_ok w"
  from applyLeave_unavailable [OF assms(3-5) this, of now]
  show "statusCode (fst (applyLeave e now event w)) = 500" and "snd (applyLeave e now event w) = w"
    by simp_all
next
  assume a: "dynamo_ok w \<and> sfn_ok w"
  then have d: "dynamo_ok w" and s: "sfn_ok w" by simp_all
  from applyLeave_stored [OF assms(3-5) d, of now]
  obtain it where it: "map_of it ''status'' = Some ''PENDING''"
    and r: "applyLeave e now event w =
              (\<lparr> statusCode = 200, headers = [],
                 body = Json [(''message'', ''Leave applied''), (''requestId'', rid)] \<rparr>,
               w\<lparr> table := (table w)(rid \<mapsto> it),
                  started := started w @ [leave_input rid b base],
                  log := log w @ [PutItem (interp (TABLE_NAME e)) (leave_item rid b),
                                  StartExecution (interp (STATE_MACHINE_ARN e)) (leave_input rid b base)] \<rparr>)"
    unfolding rid_def base_def using s by (elim exE conjE) simp
  show "fst (applyLeave e now event w) =
          \<lparr> statusCode = 200, headers = [],
            body = Json [(''message'', ''Leave applied''), (''requestId'', rid)] \<rparr>"
    by (simp add: r)
  show "log (snd (applyLeave e now event w)) =
          log w @ [PutItem (interp (TABLE_NAME e)) (leave_item rid b),
                   StartExecution (interp (STATE_MACHINE_ARN e)) (leave_input rid b base)]"
    by (simp add: r)
  show "status_of (snd (applyLeave e now event w)) rid = Some ''PENDING''"
    by (rule status_of_stored [OF it]) (simp add: r)
next
  assume a: "dynamo_ok w \<and> \<not> sfn_ok w"
  then have d: "dynamo_ok w" and s: "\<not> sfn_ok w" by simp_all
  from applyLeave_stored [OF assms(3-5) d, of now]
  obtain it where it: "map_of it ''status'' = Some ''PENDING''"
    and r: "applyLeave e now event w =
              (\<lparr> statusCode = 500, headers = [],
                 body = Json [(''message'', ''Internal server error'')] \<rparr>,
               w\<lparr> table := (table w)(rid \<mapsto> it),
                  log := log w @ [PutItem (interp (TABLE_NAME e)) (leave_item rid b)] \<rparr>)"
    unfolding rid_def base_def using s by (elim exE conjE) simp
  show "statusCode (fst (applyLeave e now event w)) = 500"
    by (simp add: r)
  show "log (snd (applyLeave e now event w)) =
          log w @ [PutItem (interp (TABLE_NAME e)) (leave_item rid b)]"
    by (simp add: r)
  show "status_of (snd (applyLeave e now event w)) rid = Some ''PENDING''"
    by (rule status_of_stored [OF it]) (simp add: r)
next
  assume a: "dynamo_ok w \<and> sfn_ok w \<and> ses_ok w \<and> started w = []"
  then have d: "dynamo_ok w" and s: "sfn_ok w" and m: "ses_ok w" and n: "started w = []"
    by simp_all
  from applyLeave_stored [OF assms(3-5) d, of now]
  obtain it where
    r: "applyLeave e now event w =
              (\<lparr> statusCode = 200, headers = [],
                 body = Json [(''message'', ''Leave applied''), (''requestId'', rid)] \<rparr>,
               w\<lparr> table := (table w)(rid \<mapsto> it),
                  started := started w @ [leave_input rid b base],
                  log := log w @ [PutItem (interp (TABLE_NAME e)) (leave_item rid b),
                                  StartExecution (interp (STATE_MACHINE_ARN e)) (leave_input rid b base)] \<rparr>)"
    unfolding rid_def base_def using s by (elim exE conjE) simp
  define w1 where "w1 = snd (applyLeave e now event w)"
  have "started w1 = leave_input rid b base # []" and "ses_ok w1"
    and l: "log w1 = log w @ [PutItem (interp (TABLE_NAME e)) (leave_item rid b),
                   StartExecution (interp (STATE_MACHINE_ARN e)) (leave_input rid b base)]"
    using m n by (simp_all add: w1_def r)
  from ask_state_sends [OF this(1,2), of e tok]
  show "log (snd (Create e now tok event w)) =
              log w @ [PutItem (interp (TABLE_NAME e)) (leave_item rid b),
                       StartExecution (interp (STATE_MACHINE_ARN e)) (leave_input rid b base),
                       SendEmail (approval_emailParams e
                                    ((leave_input rid b base)\<lparr> taskToken := Some tok \<rparr>))]"
    by (simp add: Create_split w1_def [symmetric] l)
qed

lemma sample_now: "show_nat 1743465600000 = ''1743465600000''"
  by (simp add: show_nat.simps)

lemma sample_facts:
  "configured sample_env"
  "parse_body (body' (apply_event sample_body)) = Inr sample_body"
  "valid_body sample_body"
  "leave_input ''LEAVE-1743465600000'' sample_body ''https://api.example.com/dev'' = sample_input"
  "interp (TABLE_NAME sample_env) = ''TestTable''"
  "interp (STATE_MACHINE_ARN sample_env) = ''arn:aws:states:TestStateMachine''"
  by (simp_all add: configured_def sample_env_def apply_event_def valid_body_def sample_body_def
      test_body_def leave_input_def sample_input_def sample_context_def)

lemma put_before_start_sample:
  "configured sample_env \<and>
   parse_body (body' (apply_event sample_body)) = Inr sample_body \<and>
   valid_body sample_body \<and> dynamo_ok world0 \<and> sfn_ok world0 \<and>
   fst (applyLeave sample_env 1743465600000 (apply_event sample_body) world0) =
     \<lparr> statusCode = 200, headers = [],
       body = Json [(''message'', ''Leave applied''), (''requestId'', ''LEAVE-1743465600000'')] \<rparr> \<and>
   log (snd (applyLeave sample_env 1743465600000 (apply_event sample_body) world0)) =
     [PutItem ''TestTable'' (leave_item ''LEAVE-1743465600000'' sample_body),
      StartExecution ''arn:aws:states:TestStateMachine''
        (leave_input ''LEAVE-1743465600000'' sample_body ''https://api.example.com/dev'')] \<and>
   status_of (snd (applyLeave sample_env 1743465600000 (apply_event sample_body) world0))
     ''LEAVE-1743465600000'' = Some ''PENDING''"
proof -
  have ok: "dynamo_ok world0 \<and> sfn_ok world0" and l: "log world0 = []"
    by (simp_all add: world0_def)
  note T = put_before_start [OF sample_facts(1-3), of world0 1743465600000 "''T1''"]
  from mp [OF conjunct1 [OF T] ok]
  have "fst (applyLeave sample_env 1743465600000 (apply_event sample_body) world0) =
     \<lparr> statusCode = 200, headers = [],
       body = Json [(''message'', ''Leave applied''), (''requestId'', ''LEAVE-1743465600000'')] \<rparr> \<and>
   log (snd (applyLeave sample_env 1743465600000 (apply_event sample_body) world0)) =
     [PutItem ''TestTable'' (leave_item ''LEAVE-1743465600000'' sample_body),
      StartExecution ''arn:aws:states:TestStateMachine''
        (leave_input ''LEAVE-1743465600000'' sample_body ''https://api.example.com/dev'')] \<and>
   status_of (snd (applyLeave sample_env 1743465600000 (apply_event sample_body) world0))
     ''LEAVE-1743465600000'' = Some ''PENDING''"
    by (simp add: sample_now sample_facts(5,6) l apply_event_def sample_context_def)
  with sample_facts(1-3) ok show ?thesis by (intro conjI) simp_all
qed

text \<open>
  C3 (the code at the failing input). The creation request of the repository's test
  "applies leave with valid input" carries the four fields of the leave in its body and
  the authenticated requester in the authorizer's context. \<open>Create\<close> answers it with
  400 "Missing required fields": no requestId is returned, no record is persisted, no
  workflow is started and no ask is sent, at any time and for any task token.
\<close>

theorem valid_input_rejected:
  "authorizerContext (requestContext (apply_event test_body)) =
     Some [''userEmail'' \<mapsto> ''user@example.com''] \<and>
   test_body ''leaveType'' = Some ''Vacation'' \<and>
   test_body ''startDate'' = Some ''2025-04-01'' \<and>
   test_body ''endDate'' = Some ''2025-04-05'' \<and>
   test_body ''approverEmail'' = Some ''approver@example.com'' \<and>
   Create sample_env now tok (apply_event test_body) world0 =
     (\<lparr> statusCode = 400, headers = [],
        body = Json [(''message'', ''Missing required fields'')] \<rparr>, world0) \<and>
   table world0 = Map.empty \<and> started world0 = [] \<and> log world0 = []"
proof -
  have a: "authorizerContext (requestContext (apply_event test_body)) =
     Some [''userEmail'' \<mapsto> ''user@example.com'']"
    by (simp add: apply_event_def sample_context_def)
  have b: "test_body ''leaveType'' = Some ''Vacation''"
    "test_body ''startDate'' = Some ''2025-04-01''"
    "test_body ''endDate'' = Some ''2025-04-05''"
    "test_body ''approverEmail'' = Some ''approver@example.com''"
    by (simp_all add: test_body_def)
  have p: "parse_body (body' (apply_event test_body)) = Inr test_body"
    and v: "\<not> valid_body test_body"
    by (simp_all add: apply_event_def valid_body_def test_body_def)
  have t: "applyLeave sample_env now (apply_event test_body) world0 =
     (\<lparr> statusCode = 400, headers = [],
        body = Json [(''message'', ''Missing required fields'')] \<rparr>, world0)"
    by (simp add: applyLeave_def applyLeave_try_invalid [OF sample_facts(1) p v])
  have w: "table world0 = Map.empty" "started world0 = []" "log world0 = []"
    by (simp_all add: world0_def)
  have k: "ask_state sample_env tok world0 = world0"
    by (simp add: ask_state_def w(2))
  have c: "Create sample_env now tok (apply_event test_body) world0 =
     (\<lparr> statusCode = 400, headers = [],
        body = Json [(''message'', ''Missing required fields'')] \<rparr>, world0)"
    by (simp add: Create_def t k)
  from a b c w show ?thesis by (intro conjI)
qed

lemma processApproval_accepted:
  assumes "queryStringParameters event = Some q"
    and "q ''requestId'' = Some rid" and "rid \<noteq> []"
    and "q ''action'' = Some a" and "a \<noteq> []"
    and "q ''taskToken'' = Some tok" and "tok \<noteq> []"
    and "sfn_ok w" and "tasks w tok = Some (Waiting st)"
  shows "processApproval event w =
           (\<lparr> statusCode = 200, headers = [],
              body = Json [(''message'', ''Leave request '' @ rid @ '' '' @
                             (if a = ''approve'' then ''approved'' else ''rejected''))] \<rparr>,
            w\<lparr> tasks := (tasks w)(tok \<mapsto> Consumed),
               ready := ready w @
                 [(st, [(''approvalStatus'', if a = ''approve'' then ''APPROVED'' else ''REJECTED'')])],
               log := log w @
                 [SendTaskSuccess tok
                    [(''approvalStatus'', if a = ''approve'' then ''APPROVED'' else ''REJECTED'')]] \<rparr>)"
  by (simp add: processApproval_def
      processApproval_try_accepted(1) [OF assms(1-7) sfn_accepts [OF assms(8,9)]])

lemma processApproval_consumed:
  assumes "queryStringParameters event = Some q"
    and "q ''requestId'' = Some rid" and "rid \<noteq> []"
    and "q ''action'' = Some a" and "a \<noteq> []"
    and "q ''taskToken'' = Some tok" and "tok \<noteq> []"
    and "tasks w tok = Some Consumed"
  shows "processApproval event w =
           (\<lparr> statusCode = 500, headers = [],
              body = Json [(''message'', ''Internal server error'')] \<rparr>, w)"
proof -
  from assms(8)
  obtain err where "sfn_send (SendTaskSuccess tok
      [(''approvalStatus'', if a = ''approve'' then ''APPROVED'' else ''REJECTED'')]) w = Inl err"
    by (cases "sfn_ok w") simp_all
  from processApproval_try_rejected(1) [OF assms(1-7) this]
  show ?thesis by (simp add: processApproval_def)
qed

lemma Resume_accepted:
  assumes "queryStringParameters event = Some q"
    and "q ''requestId'' = Some rid" and "rid \<noteq> []"
    and "q ''action'' = Some a" and "a \<noteq> []"
    and "q ''taskToken'' = Some tok" and "tok \<noteq> []"
    and "sfn_ok w" and "tasks w tok = Some (Waiting st)" and "ready w = []"
  shows "fst (Resume e event w) =
           \<lparr> statusCode = 200, headers = [],
             body = Json [(''message'', ''Leave request '' @ rid @ '' '' @
                            (if a = ''approve'' then ''approved'' else ''rejected''))] \<rparr>"
    and "snd (Resume e event w) =
           w\<lparr> tasks := (tasks w)(tok \<mapsto> Consumed),
              log := log w @
                SendTaskSuccess tok
                  [(''approvalStatus'', if a = ''approve'' then ''APPROVED'' else ''REJECTED'')] #
                (if ses_ok w
                 then [SendEmail (outcome_emailParams e
                         (st\<lparr> approvalStatus :=
                                 Some (if a = ''approve'' then ''APPROVED'' else ''REJECTED'') \<rparr>))]
                 else []) \<rparr>"
proof -
  note p = processApproval_accepted [OF assms(1-9)]
  show "fst (Resume e event w) =
           \<lparr> statusCode = 200, headers = [],
             body = Json [(''message'', ''Leave request '' @ rid @ '' '' @
                            (if a = ''approve'' then ''approved'' else ''rejected''))] \<rparr>"
    by (simp add: Resume_split p)
  show "snd (Resume e event w) =
           w\<lparr> tasks := (tasks w)(tok \<mapsto> Consumed),
              log := log w @
                SendTaskSuccess tok
                  [(''approvalStatus'', if a = ''approve'' then ''APPROVED'' else ''REJECTED'')] #
                (if ses_ok w
                 then [SendEmail (outcome_emailParams e
                         (st\<lparr> approvalStatus :=
                                 Some (if a = ''approve'' then ''APPROVED'' else ''REJECTED'') \<rparr>))]
                 else []) \<rparr>"
    using assms(10)
    by (simp add: Resume_split p outcome_state_def notifyUser_def)
qed

lemma Resume_replayed:
  assumes "queryStringParameters event = Some q"
    and "q ''requestId'' = Some rid" and "rid \<noteq> []"
    and "q ''action'' = Some a" and "a \<noteq> []"
    and "q ''taskToken'' = Some tok" and "tok \<noteq> []"
    and "tasks w tok = Some Consumed" and "ready w = []"
  shows "Resume e event w =
           (\<lparr> statusCode = 500, headers = [],
              body = Json [(''message'', ''Internal server error'')] \<rparr>, w)"
  by (simp add: Resume_def processApproval_consumed [OF assms(1-8)] outcome_state_idle [OF assms(9)])

text \<open>The deployment after the sample request is created with the token \<open>T1\<close>.\<close>

lemma sample_created:
  "table (snd (Create sample_env 1743465600000 ''T1'' (apply_event sample_body) world0)) =
     [''LEAVE-1743465600000'' \<mapsto> sample_item]"
  "tasks (snd (Create sample_env 1743465600000 ''T1'' (apply_event sample_body) world0)) =
     [''T1'' \<mapsto> Waiting sample_input]"
  "ready (snd (Create sample_env 1743465600000 ''T1'' (apply_event sample_body) world0)) = []"
  "sfn_ok (snd (Create sample_env 1743465600000 ''T1'' (apply_event sample_body) world0))"
  "ses_ok (snd (Create sample_env 1743465600000 ''T1'' (apply_event sample_body) world0))"
proof -
  have d: "dynamo_ok world0" by (simp add: world0_def)
  from applyLeave_stored [OF sample_facts(1-3) d, of 1743465600000]
  obtain it where it: "defined_item (leave_item ''LEAVE-1743465600000'' sample_body) = Some it"
    and r: "snd (applyLeave sample_env 1743465600000 (apply_event sample_body) world0) =
              world0\<lparr> table := [''LEAVE-1743465600000'' \<mapsto> it],
                      started := [sample_input],
                      log := [PutItem ''TestTable'' (leave_item ''LEAVE-1743465600000'' sample_body),
                              StartExecution ''arn:aws:states:TestStateMachine'' sample_input] \<rparr>"
    by (elim exE conjE)
       (simp add: sample_now sample_facts(5,6) apply_event_def sample_context_def
          sample_facts(4) [symmetric] world0_def)
  from it have i: "it = sample_item"
    by (simp add: leave_item_def sample_body_def test_body_def sample_item_def)
  define w1 where "w1 = snd (applyLeave sample_env 1743465600000 (apply_event sample_body) world0)"
  have f: "started w1 = sample_input # []" "ses_ok w1" "sfn_ok w1" "ready w1 = []"
    "tasks w1 = Map.empty" "table w1 = [''LEAVE-1743465600000'' \<mapsto> sample_item]"
    by (simp_all add: w1_def r i) (simp_all add: world0_def)
  from ask_state_sends [OF f(1,2), of sample_env "''T1''"]
  have c: "snd (Create sample_env 1743465600000 ''T1'' (apply_event sample_body) world0) =
          w1\<lparr> started := [], tasks := (tasks w1)(''T1'' \<mapsto> Waiting sample_input),
              log := log w1 @ [SendEmail (approval_emailParams sample_env
                                 (sample_input\<lparr> taskToken := Some ''T1'' \<rparr>))] \<rparr>"
    by (simp add: Create_split w1_def)
  show "table (snd (Create sample_env 1743465600000 ''T1'' (apply_event sample_body) world0)) =
     [''LEAVE-1743465600000'' \<mapsto> sample_item]"
    by (simp add: c f)
  show "tasks (snd (Create sample_env 1743465600000 ''T1'' (apply_event sample_body) world0)) =
     [''T1'' \<mapsto> Waiting sample_input]"
    by (simp add: c f)
  show "ready (snd (Create sample_env 1743465600000 ''T1'' (apply_event sample_body) world0)) = []"
    by (simp add: c f)
  show "sfn_ok (snd (Create sample_env 1743465600000 ''T1'' (apply_event sample_body) world0))"
    by (simp add: c f)
  show "ses_ok (snd (Create sample_env 1743465600000 ''T1'' (apply_event sample_body) world0))"
    by (simp add: c f)
qed

lemma resume_event_query:
  "queryStringParameters (resume_event rid a tok) =
     Some [''requestId'' \<mapsto> rid, ''action'' \<mapsto> a, ''taskToken'' \<mapsto> tok]"
  "[''requestId'' \<mapsto> rid, ''action'' \<mapsto> a, ''taskToken'' \<mapsto> tok] ''requestId'' = Some rid"
  "[''requestId'' \<mapsto> rid, ''action'' \<mapsto> a, ''taskToken'' \<mapsto> tok] ''action'' = Some a"
  "[''requestId'' \<mapsto> rid, ''action'' \<mapsto> a, ''taskToken'' \<mapsto> tok] ''taskToken'' = Some tok"
  by (simp_all add: resume_event_def)

lemma created_world_fields:
  "table created_world = [''LEAVE-1743465600000'' \<mapsto> sample_item]"
  "tasks created_world ''T1'' = Some (Waiting sample_input)"
  "ready created_world = []" "sfn_ok created_world" "ses_ok created_world"
  by (simp_all add: created_world_def sample_created)

text \<open>
  C1 (counterexample). The sample request is created and its approver follows the
  approve link. The call is answered 200, and the stored status is still PENDING, not
  APPROVED. The same link followed again is answered 500 with the generic server error,
  not with TokenAlreadyConsumed.
\<close>

theorem resume_status_counterexample:
  "status_of created_world ''LEAVE-1743465600000'' = Some ''PENDING'' \<and>
   statusCode (fst (Resume sample_env (resume_event ''LEAVE-1743465600000'' ''approve'' ''T1'')
                      created_world)) = 200 \<and>
   status_of (snd (Resume sample_env (resume_event ''LEAVE-1743465600000'' ''approve'' ''T1'')
                     created_world)) ''LEAVE-1743465600000'' = Some ''PENDING'' \<and>
   fst (Resume sample_env (resume_event ''LEAVE-1743465600000'' ''approve'' ''T1'')
          (snd (Resume sample_env (resume_event ''LEAVE-1743465600000'' ''approve'' ''T1'')
                  created_world))) =
     \<lparr> statusCode = 500, headers = [],
       body = Json [(''message'', ''Internal server error'')] \<rparr>"
proof -
  let ?ev = "resume_event ''LEAVE-1743465600000'' ''approve'' ''T1''"
  have n: "''LEAVE-1743465600000'' \<noteq> []" "''approve'' \<noteq> []" "''T1'' \<noteq> []" by simp_all
  note R1 = Resume_accepted(1) [OF resume_event_query(1,2) n(1) resume_event_query(3) n(2)
      resume_event_query(4) n(3) created_world_fields(4,2,3), of sample_env]
  note R2 = Resume_accepted(2) [OF resume_event_query(1,2) n(1) resume_event_query(3) n(2)
      resume_event_query(4) n(3) created_world_fields(4,2,3), of sample_env]
  have s0: "status_of created_world ''LEAVE-1743465600000'' = Some ''PENDING''"
    by (simp add: status_of_def created_world_fields(1) sample_item_def)
  have s1: "status_of (snd (Resume sample_env ?ev created_world)) ''LEAVE-1743465600000'' = Some ''PENDING''"
    by (simp add: R2 status_of_def created_world_fields(1) sample_item_def)
  have c: "statusCode (fst (Resume sample_env ?ev created_world)) = 200"
    by (simp add: R1)
  have t: "tasks (snd (Resume sample_env ?ev created_world)) ''T1'' = Some Consumed"
    and r: "ready (snd (Resume sample_env ?ev created_world)) = []"
    by (simp_all add: R2 created_world_fields(3))
  from Resume_replayed [OF resume_event_query(1,2) n(1) resume_event_query(3) n(2) resume_event_query(4) n(3) t r,
      of sample_env]
  have "fst (Resume sample_env ?ev (snd (Resume sample_env ?ev created_world))) =
     \<lparr> statusCode = 500, headers = [],
       body = Json [(''message'', ''Internal server error'')] \<rparr>"
    by simp
  with s0 c s1 show ?thesis by (intro conjI)
qed

text \<open>
  C1 (amended). The first Resume call carrying a token that waits at the workflow
  reports APPROVED or REJECTED according to the decision to the workflow exactly once:
  it is answered 200, the token is consumed, and one SendTaskSuccess (followed by the one
  outcome notification when the mail service answers) is all the services accept. Every
  later Resume call with that consumed token, whatever its decision and request id,
  fails with the 500-equivalent generic server error and changes nothing: the stored
  status and the token stay as they are and no further notification is sent. The same
  holds in every later state of the services in which the token is consumed.
\<close>

theorem resume_once:
  assumes "queryStringParameters event = Some q"
    and "q ''requestId'' = Some rid" and "rid \<noteq> []"
    and "q ''action'' = Some a" and "a \<noteq> []"
    and "q ''taskToken'' = Some tok" and "tok \<noteq> []"
    and "sfn_ok w" and "tasks w tok = Some (Waiting st)" and "ready w = []"
  shows "statusCode (fst (Resume e event w)) = 200 \<and>
         tasks (snd (Resume e event w)) tok = Some Consumed \<and>
         (\<exists>s. (s = ''APPROVED'') = (a = ''approve'') \<and> (s = ''REJECTED'') = (a \<noteq> ''approve'') \<and>
              log (snd (Resume e event w)) =
                log w @ SendTaskSuccess tok [(''approvalStatus'', s)] #
                (if ses_ok w
                 then [SendEmail (outcome_emailParams e (st\<lparr> approvalStatus := Some s \<rparr>))]
                 else [])) \<and>
         (\<forall>event' q' rid' a'.
            queryStringParameters event' = Some q' \<and> q' ''requestId'' = Some rid' \<and> rid' \<noteq> [] \<and>
            q' ''action'' = Some a' \<and> a' \<noteq> [] \<and> q' ''taskToken'' = Some tok \<longrightarrow>
            Resume e event' (snd (Resume e event w)) =
              (\<lparr> statusCode = 500, headers = [],
                 body = Json [(''message'', ''Internal server error'')] \<rparr>,
               snd (Resume e event w))) \<and>
         (\<forall>w' event' q' rid' a'.
            tasks w' tok = Some Consumed \<and>
            queryStringParameters event' = Some q' \<and> q' ''requestId'' = Some rid' \<and> rid' \<noteq> [] \<and>
            q' ''action'' = Some a' \<and> a' \<noteq> [] \<and> q' ''taskToken'' = Some tok \<longrightarrow>
            processApproval event' w' =
              (\<lparr> statusCode = 500, headers = [],
                 body = Json [(''message'', ''Internal server error'')] \<rparr>, w') \<and>
            (ready w' = [] \<longrightarrow>
               Resume e event' w' =
                 (\<lparr> statusCode = 500, headers = [],
                    body = Json [(''message'', ''Internal server error'')] \<rparr>, w')))"
proof -
  note R1 = Resume_accepted(1) [OF assms, of e] and R2 = Resume_accepted(2) [OF assms, of e]
  define s where "s = (if a = ''approve'' then ''APPROVED'' else ''REJECTED'')"
  have c: "statusCode (fst (Resume e event w)) = 200"
    by (simp add: R1)
  have t: "tasks (snd (Resume e event w)) tok = Some Consumed"
    by (simp add: R2)
  have r: "ready (snd (Resume e event w)) = []"
    by (simp add: R2 assms(10))
  have l: "(s = ''APPROVED'') = (a = ''approve'') \<and> (s = ''REJECTED'') = (a \<noteq> ''approve'') \<and>
              log (snd (Resume e event w)) =
                log w @ SendTaskSuccess tok [(''approvalStatus'', s)] #
                (if ses_ok w
                 then [SendEmail (outcome_emailParams e (st\<lparr> approvalStatus := Some s \<rparr>))]
                 else [])"
    by (simp add: R2 s_def)
  then have l': "\<exists>s. (s = ''APPROVED'') = (a = ''approve'') \<and> (s = ''REJECTED'') = (a \<noteq> ''approve'') \<and>
              log (snd (Resume e event w)) =
                log w @ SendTaskSuccess tok [(''approvalStatus'', s)] #
                (if ses_ok w
                 then [SendEmail (outcome_emailParams e (st\<lparr> approvalStatus := Some s \<rparr>))]
                 else [])"
    by (rule exI)
  have again: "\<forall>event' q' rid' a'.
            queryStringParameters event' = Some q' \<and> q' ''requestId'' = Some rid' \<and> rid' \<noteq> [] \<and>
            q' ''action'' = Some a' \<and> a' \<noteq> [] \<and> q' ''taskToken'' = Some tok \<longrightarrow>
            Resume e event' (snd (Resume e event w)) =
              (\<lparr> statusCode = 500, headers = [],
                 body = Json [(''message'', ''Internal server error'')] \<rparr>,
               snd (Resume e event w))"
  proof (intro allI impI, elim conjE)
    fix event' :: proxy_event and q' :: "string \<rightharpoonup> string" and rid' a' :: string
    assume g: "queryStringParameters event' = Some q'" "q' ''requestId'' = Some rid'" "rid' \<noteq> []"
      "q' ''action'' = Some a'" "a' \<noteq> []" "q' ''taskToken'' = Some tok"
    show "Resume e event' (snd (Resume e event w)) =
              (\<lparr> statusCode = 500, headers = [],
                 body = Json [(''message'', ''Internal server error'')] \<rparr>,
               snd (Resume e event w))"
      by (rule Resume_replayed [OF g assms(7) t r])
  qed
  have later: "\<forall>w' event' q' rid' a'.
            tasks w' tok = Some Consumed \<and>
            queryStringParameters event' = Some q' \<and> q' ''requestId'' = Some rid' \<and> rid' \<noteq> [] \<and>
            q' ''action'' = Some a' \<and> a' \<noteq> [] \<and> q' ''taskToken'' = Some tok \<longrightarrow>
            processApproval event' w' =
              (\<lparr> statusCode = 500, headers = [],
                 body = Json [(''message'', ''Internal server error'')] \<rparr>, w') \<and>
            (ready w' = [] \<longrightarrow>
               Resume e event' w' =
                 (\<lparr> statusCode = 500, headers = [],
                    body = Json [(''message'', ''Internal server error'')] \<rparr>, w'))"
  proof (intro allI impI, elim conjE, intro conjI impI)
    fix w' :: world and event' :: proxy_event and q' :: "string \<rightharpoonup> string" and rid' a' :: string
    assume g: "queryStringParameters event' = Some q'" "q' ''requestId'' = Some rid'" "rid' \<noteq> []"
      "q' ''action'' = Some a'" "a' \<noteq> []" "q' ''taskToken'' = Some tok"
      and k: "tasks w' tok = Some Consumed"
    show "processApproval event' w' =
              (\<lparr> statusCode = 500, headers = [],
                 body = Json [(''message'', ''Internal server error'')] \<rparr>, w')"
      by (rule processApproval_consumed [OF g assms(7) k])
    assume "ready w' = []"
    then show "Resume e event' w' =
                 (\<lparr> statusCode = 500, headers = [],
                    body = Json [(''message'', ''Internal server error'')] \<rparr>, w')"
      by (rule Resume_replayed [OF g assms(7) k])
  qed
  from c t l' again later show ?thesis by (intro conjI)
qed

theorem resume_once_witness:
  "sfn_ok created_world \<and> tasks created_world ''T1'' = Some (Waiting sample_input) \<and>
   ready created_world = [] \<and>
   statusCode (fst (Resume sample_env (resume_event ''LEAVE-1743465600000'' ''approve'' ''T1'')
                      created_world)) = 200 \<and>
   tasks (snd (Resume sample_env (resume_event ''LEAVE-1743465600000'' ''approve'' ''T1'')
                 created_world)) ''T1'' = Some Consumed \<and>
   Resume sample_env (resume_event ''LEAVE-1743465600000'' ''approve'' ''T1'')
     (snd (Resume sample_env (resume_event ''LEAVE-1743465600000'' ''approve'' ''T1'') created_world)) =
     (\<lparr> statusCode = 500, headers = [],
        body = Json [(''message'', ''Internal server error'')] \<rparr>,
      snd (Resume sample_env (resume_event ''LEAVE-1743465600000'' ''approve'' ''T1'') created_world)) \<and>
   Resume sample_env (resume_event ''LEAVE-0'' ''reject'' ''T1'')
     (snd (Resume sample_env (resume_event ''LEAVE-1743465600000'' ''approve'' ''T1'') created_world)) =
     (\<lparr> statusCode = 500, headers = [],
        body = Json [(''message'', ''Internal server error'')] \<rparr>,
      snd (Resume sample_env (resume_event ''LEAVE-1743465600000'' ''approve'' ''T1'') created_world))"
proof -
  have n: "''LEAVE-1743465600000'' \<noteq> []" "''approve'' \<noteq> []" "''T1'' \<noteq> []" by simp_all
  note T = resume_once [OF resume_event_query(1,2) n(1) resume_event_query(3) n(2)
      resume_event_query(4) n(3) created_world_fields(4,2,3), of sample_env]
  note a = conjunct1 [OF T] and c = conjunct1 [OF conjunct2 [OF T]]
    and d = conjunct1 [OF conjunct2 [OF conjunct2 [OF conjunct2 [OF T]]]]
  have h1: "queryStringParameters (resume_event ''LEAVE-1743465600000'' ''approve'' ''T1'') =
             Some [''requestId'' \<mapsto> ''LEAVE-1743465600000'', ''action'' \<mapsto> ''approve'', ''taskToken'' \<mapsto> ''T1''] \<and>
           [''requestId'' \<mapsto> ''LEAVE-1743465600000'', ''action'' \<mapsto> ''approve'', ''taskToken'' \<mapsto> ''T1'']
             ''requestId'' = Some ''LEAVE-1743465600000'' \<and> ''LEAVE-1743465600000'' \<noteq> [] \<and>
           [''requestId'' \<mapsto> ''LEAVE-1743465600000'', ''action'' \<mapsto> ''approve'', ''taskToken'' \<mapsto> ''T1'']
             ''action'' = Some ''approve'' \<and> ''approve'' \<noteq> [] \<and>
           [''requestId'' \<mapsto> ''LEAVE-1743465600000'', ''action'' \<mapsto> ''approve'', ''taskToken'' \<mapsto> ''T1'']
             ''taskToken'' = Some ''T1''"
    by (simp add: resume_event_def)
  have h2: "queryStringParameters (resume_event ''LEAVE-0'' ''reject'' ''T1'') =
             Some [''requestId'' \<mapsto> ''LEAVE-0'', ''action'' \<mapsto> ''reject'', ''taskToken'' \<mapsto> ''T1''] \<and>
           [''requestId'' \<mapsto> ''LEAVE-0'', ''action'' \<mapsto> ''reject'', ''taskToken'' \<mapsto> ''T1''] ''requestId'' =
             Some ''LEAVE-0'' \<and> ''LEAVE-0'' \<noteq> [] \<and>
           [''requestId'' \<mapsto> ''LEAVE-0'', ''action'' \<mapsto> ''reject'', ''taskToken'' \<mapsto> ''T1''] ''action'' =
             Some ''reject'' \<and> ''reject'' \<noteq> [] \<and>
           [''requestId'' \<mapsto> ''LEAVE-0'', ''action'' \<mapsto> ''reject'', ''taskToken'' \<mapsto> ''T1''] ''taskToken'' =
             Some ''T1''"
    by (simp add: resume_event_def)
  note r1 = mp [OF spec [OF spec [OF spec [OF spec [OF d]]]] h1]
    and r2 = mp [OF spec [OF spec [OF spec [OF spec [OF d]]]] h2]
  from created_world_fields(4,2,3) a c r1 r2 show ?thesis by (intro conjI)
qed




lemma other_facts:
  "parse_body (body' (apply_event other_body)) = Inr other_body"
  "valid_body other_body"
  by (simp_all add: apply_event_def valid_body_def other_body_def)

text \<open>
  C7 (the code at the failing inputs). The request of the repository's tests carries
  the authenticated identity in the authorizer's context and no \<open>userEmail\<close> in its
  body: \<open>applyLeave\<close> answers 400 and stores nothing, where the tests expect 200. A body
  that names another address is stored under that address, whatever the authorizer's
  context says. A request without any authorizer context is accepted (200), where the
  tests expect 403 Unauthorized. \<open>applyLeave\<close> of hello-world/app.ts reads
  \<open>userEmail\<close> from its event in the same way and stores what it finds there.
\<close>

theorem requester_from_payload:
  "authorizerContext (requestContext (apply_event test_body)) = Some [''userEmail'' \<mapsto> ''user@example.com''] \<and>
   applyLeave sample_env 1743465600000 (apply_event test_body) world0 =
     (\<lparr> statusCode = 400, headers = [],
        body = Json [(''message'', ''Missing required fields'')] \<rparr>, world0) \<and>
   authorizerContext (requestContext (apply_event other_body)) = Some [''userEmail'' \<mapsto> ''user@example.com''] \<and>
   statusCode (fst (applyLeave sample_env 1743465600000 (apply_event other_body) world0)) = 200 \<and>
   stored (snd (applyLeave sample_env 1743465600000 (apply_event other_body) world0))
     ''LEAVE-1743465600000'' ''userEmail'' = Some ''other@example.com'' \<and>
   statusCode (fst (applyLeave sample_env 1743465600000
      ((apply_event sample_body)\<lparr> requestContext := sample_context\<lparr> authorizerContext := None \<rparr> \<rparr>)
      world0)) = 200 \<and>
   stored (snd (applyLeave_hw sample_env (sample_input\<lparr> userEmail := Some ''other@example.com'' \<rparr>) world0))
     ''LEAVE-1743465600000'' ''userEmail'' = Some ''other@example.com''"
proof -
  have d: "dynamo_ok world0" and s: "sfn_ok world0" by (simp_all add: world0_def)
  have a1: "authorizerContext (requestContext (apply_event test_body)) = Some [''userEmail'' \<mapsto> ''user@example.com'']"
    and a2: "authorizerContext (requestContext (apply_event other_body)) = Some [''userEmail'' \<mapsto> ''user@example.com'']"
    by (simp_all add: apply_event_def sample_context_def)
  have p: "parse_body (body' (apply_event test_body)) = Inr test_body" and v: "\<not> valid_body test_body"
    by (simp_all add: apply_event_def valid_body_def test_body_def)
  have t: "applyLeave sample_env 1743465600000 (apply_event test_body) world0 =
     (\<lparr> statusCode = 400, headers = [],
        body = Json [(''message'', ''Missing required fields'')] \<rparr>, world0)"
    by (simp add: applyLeave_def applyLeave_try_invalid [OF sample_facts(1) p v])
  from applyLeave_stored [OF sample_facts(1) other_facts d, of 1743465600000]
  obtain it where it: "defined_item (leave_item ''LEAVE-1743465600000'' other_body) = Some it"
    and r: "fst (applyLeave sample_env 1743465600000 (apply_event other_body) world0) =
              \<lparr> statusCode = 200, headers = [],
                 body = Json [(''message'', ''Leave applied''), (''requestId'', ''LEAVE-1743465600000'')] \<rparr>"
       "table (snd (applyLeave sample_env 1743465600000 (apply_event other_body) world0))
          ''LEAVE-1743465600000'' = Some it"
    using s by (elim exE conjE) (simp add: sample_now)
  from it have "map_of it ''userEmail'' = Some ''other@example.com''"
    by (auto simp: leave_item_def other_body_def)
  with r(2) have o: "stored (snd (applyLeave sample_env 1743465600000 (apply_event other_body) world0))
     ''LEAVE-1743465600000'' ''userEmail'' = Some ''other@example.com''"
    by (simp add: stored_def)
  have p': "parse_body (body' ((apply_event sample_body)\<lparr> requestContext := sample_context\<lparr> authorizerContext := None \<rparr> \<rparr>)) = Inr sample_body"
    by (simp add: apply_event_def)
  from applyLeave_stored [OF sample_facts(1) p' sample_facts(3) d, of 1743465600000]
  have u: "statusCode (fst (applyLeave sample_env 1743465600000
      ((apply_event sample_body)\<lparr> requestContext := sample_context\<lparr> authorizerContext := None \<rparr> \<rparr>)
      world0)) = 200"
    using s by (elim exE conjE) simp
  have h: "stored (snd (applyLeave_hw sample_env (sample_input\<lparr> userEmail := Some ''other@example.com'' \<rparr>) world0))
     ''LEAVE-1743465600000'' ''userEmail'' = Some ''other@example.com''"
    by (simp add: applyLeave_hw_def sample_env_def sample_input_def world0_def stored_def)
  from a1 t a2 r(1) o u h show ?thesis by simp
qed

lemma created_world_dynamo: "dynamo_ok created_world"
proof -
  have d: "dynamo_ok world0" by (simp add: world0_def)
  from applyLeave_stored [OF sample_facts(1-3) d, of 1743465600000]
  have "dynamo_ok (snd (applyLeave sample_env 1743465600000 (apply_event sample_body) world0))"
    by (elim exE conjE) (simp add: world0_def)
  then show ?thesis
    by (simp add: created_world_def Create_split ask_state_def sendApprovalEmail_def
        split: list.splits sum.splits)
qed

text \<open>
  C6 (counterexample). A second request created in the same millisecond gets the same
  requestId. Its Put is accepted (the call is answered 200, there is no DuplicateKey) and
  the record stored under that id is now the second request's: the first one is
  overwritten.
\<close>

theorem duplicate_put_counterexample:
  "stored created_world ''LEAVE-1743465600000'' ''userEmail'' = Some ''user@example.com'' \<and>
   statusCode (fst (applyLeave sample_env 1743465600000 (apply_event other_body) created_world)) = 200 \<and>
   stored (snd (applyLeave sample_env 1743465600000 (apply_event other_body) created_world))
     ''LEAVE-1743465600000'' ''userEmail'' = Some ''other@example.com''"
proof -
  have a: "stored created_world ''LEAVE-1743465600000'' ''userEmail'' = Some ''user@example.com''"
    by (simp add: stored_def created_world_fields(1) sample_item_def)
  from applyLeave_stored [OF sample_facts(1) other_facts created_world_dynamo, of 1743465600000]
  obtain it where it: "defined_item (leave_item ''LEAVE-1743465600000'' other_body) = Some it"
    and r: "statusCode (fst (applyLeave sample_env 1743465600000 (apply_event other_body) created_world)) = 200"
       "table (snd (applyLeave sample_env 1743465600000 (apply_event other_body) created_world))
          ''LEAVE-1743465600000'' = Some it"
    using created_world_fields(4) by (elim exE conjE) (simp add: sample_now)
  from it have "map_of it ''userEmail'' = Some ''other@example.com''"
    by (auto simp: leave_item_def other_body_def)
  with r(2) have "stored (snd (applyLeave sample_env 1743465600000 (apply_event other_body) created_world))
     ''LEAVE-1743465600000'' ''userEmail'' = Some ''other@example.com''"
    by (simp add: stored_def)
  with a r(1) show ?thesis by (intro conjI)
qed

lemma stored_lookup: "table w rid = Some it \<Longrightarrow> stored w rid k = map_of it k"
  by (simp add: stored_def)

lemma applyLeave_hw_stored:
  assumes "configured e" and "userEmail ev = Some u" and "u \<noteq> []"
    and "approverEmail ev = Some a" and "a \<noteq> []"
    and "leaveDetails ev = Some d"
    and "leaveType d = Some l" and "l \<noteq> []"
    and "startDate d = Some s" and "s \<noteq> []"
    and "endDate d = Some n" and "n \<noteq> []"
    and "requestId ev = Some rid" and "rid \<noteq> []"
    and "dynamo_ok w"
  shows "applyLeave_hw e ev w =
           (Inr \<lparr> requestId = Some rid, userEmail = Some u, approverEmail = Some a,
                  leaveDetails = Some d, taskToken = None, apiBaseUrl = None,
                  approvalStatus = None \<rparr>,
            w\<lparr> table := (table w)(rid \<mapsto>
                   [(''requestId'', rid), (''userEmail'', u), (''approverEmail'', a),
                    (''leaveType'', l), (''startDate'', s), (''endDate'', n),
                    (''reason'', or_default (reason d) ''Not provided''), (''status'', ''PENDING'')]),
               log := log w @
                 [PutItem (interp (TABLE_NAME e))
                    [(''requestId'', Some rid), (''userEmail'', Some u), (''approverEmail'', Some a),
                     (''leaveType'', Some l), (''startDate'', Some s), (''endDate'', Some n),
                     (''reason'', Some (or_default (reason d) ''Not provided'')),
                     (''status'', Some ''PENDING'')]] \<rparr>)"
  using assms by (simp add: applyLeave_hw_def configured_def)

text \<open>
  C6 (amended). For every store state that already contains a record with a given
  requestId, the Put of a new record with that requestId succeeds and replaces the
  existing record: there is no DuplicateKey failure. With the HTTP handler (whose
  requestId is the millisecond of the call) and with \<open>applyLeave\<close> of hello-world/app.ts
  (whose requestId comes with the event), the record stored afterwards is the new
  request's, with status PENDING, whatever the old record was.
\<close>

theorem put_replaces_existing:
  "(configured e \<and> parse_body (body' event) = Inr b \<and> valid_body b \<and> dynamo_ok w \<and>
    table w (''LEAVE-'' @ show_nat now) = Some old \<longrightarrow>
      (sfn_ok w \<longrightarrow> statusCode (fst (applyLeave e now event w)) = 200) \<and>
      (\<exists>it. table (snd (applyLeave e now event w)) (''LEAVE-'' @ show_nat now) = Some it \<and>
            defined_item (leave_item (''LEAVE-'' @ show_nat now) b) = Some it) \<and>
      stored (snd (applyLeave e now event w)) (''LEAVE-'' @ show_nat now) ''userEmail'' = b ''userEmail'' \<and>
      stored (snd (applyLeave e now event w)) (''LEAVE-'' @ show_nat now) ''leaveType'' = b ''leaveType'' \<and>
      stored (snd (applyLeave e now event w)) (''LEAVE-'' @ show_nat now) ''status'' = Some ''PENDING'') \<and>
   (configured e \<and> u \<noteq> [] \<and> a \<noteq> [] \<and> l \<noteq> [] \<and> s \<noteq> [] \<and> n \<noteq> [] \<and>
    userEmail ev = Some u \<and> approverEmail ev = Some a \<and> leaveDetails ev = Some d \<and>
    leaveType d = Some l \<and> startDate d = Some s \<and> endDate d = Some n \<and>
    requestId ev = Some rid \<and> rid \<noteq> [] \<and> dynamo_ok w \<and> table w rid = Some old \<longrightarrow>
      (\<exists>r. fst (applyLeave_hw e ev w) = Inr r) \<and>
      stored (snd (applyLeave_hw e ev w)) rid ''userEmail'' = Some u \<and>
      stored (snd (applyLeave_hw e ev w)) rid ''leaveType'' = Some l \<and>
      stored (snd (applyLeave_hw e ev w)) rid ''status'' = Some ''PENDING'')"
proof (intro conjI impI; (elim conjE)?)
  assume c: "configured e" and p: "parse_body (body' event) = Inr b" and v: "valid_body b"
    and d: "dynamo_ok w"
  from applyLeave_stored [OF c p v d, of now]
  obtain it where it: "defined_item (leave_item (''LEAVE-'' @ show_nat now) b) = Some it"
    and r: "applyLeave e now event w =
             (if sfn_ok w
              then (\<lparr> statusCode = 200, headers = [],
                      body = Json [(''message'', ''Leave applied''),
                                   (''requestId'', ''LEAVE-'' @ show_nat now)] \<rparr>,
                    w\<lparr> table := (table w)((''LEAVE-'' @ show_nat now) \<mapsto> it),
                       started := started w @
                         [leave_input (''LEAVE-'' @ show_nat now) b
                            (''https://'' @ interp (domainName (requestContext event)) @ ''/'' @
                             interp (stage (requestContext event)))],
                       log := log w @
                         [PutItem (interp (TABLE_NAME e)) (leave_item (''LEAVE-'' @ show_nat now) b),
                          StartExecution (interp (STATE_MACHINE_ARN e))
                            (leave_input (''LEAVE-'' @ show_nat now) b
                               (''https://'' @ interp (domainName (requestContext event)) @ ''/'' @
                                interp (stage (requestContext event))))] \<rparr>)
              else (\<lparr> statusCode = 500, headers = [],
                      body = Json [(''message'', ''Internal server error'')] \<rparr>,
                    w\<lparr> table := (table w)((''LEAVE-'' @ show_nat now) \<mapsto> it),
                       log := log w @
                         [PutItem (interp (TABLE_NAME e))
                            (leave_item (''LEAVE-'' @ show_nat now) b)] \<rparr>))"
    by (elim exE conjE)
  have t: "table (snd (applyLeave e now event w)) (''LEAVE-'' @ show_nat now) = Some it"
    by (simp add: r)
  from defined_leave_item [OF v, of "''LEAVE-'' @ show_nat now"] it
  have m: "map_of it ''userEmail'' = b ''userEmail''" "map_of it ''leaveType'' = b ''leaveType''"
    "map_of it ''status'' = Some ''PENDING''"
    by simp_all
  { assume "sfn_ok w"
    then show "statusCode (fst (applyLeave e now event w)) = 200" by (simp add: r) }
  show "\<exists>it. table (snd (applyLeave e now event w)) (''LEAVE-'' @ show_nat now) = Some it \<and>
            defined_item (leave_item (''LEAVE-'' @ show_nat now) b) = Some it"
    using t it by (intro exI conjI)
  show "stored (snd (applyLeave e now event w)) (''LEAVE-'' @ show_nat now) ''userEmail'' = b ''userEmail''"
    by (simp only: stored_lookup [OF t] m)
  show "stored (snd (applyLeave e now event w)) (''LEAVE-'' @ show_nat now) ''leaveType'' = b ''leaveType''"
    by (simp only: stored_lookup [OF t] m)
  show "stored (snd (applyLeave e now event w)) (''LEAVE-'' @ show_nat now) ''status'' = Some ''PENDING''"
    by (simp only: stored_lookup [OF t] m)
next
  assume c: "configured e"
    and ne: "u \<noteq> []" "a \<noteq> []" "l \<noteq> []" "s \<noteq> []" "n \<noteq> []"
    and f: "userEmail ev = Some u" "approverEmail ev = Some a" "leaveDetails ev = Some d"
      "leaveType d = Some l" "startDate d = Some s" "endDate d = Some n"
      "requestId ev = Some rid" "rid \<noteq> []" "dynamo_ok w"
  note r = applyLeave_hw_stored [OF c f(1) ne(1) f(2) ne(2) f(3) f(4) ne(3) f(5) ne(4) f(6) ne(5) f(7,8,9)]
  show "\<exists>r. fst (applyLeave_hw e ev w) = Inr r" by (simp add: r)
  show "stored (snd (applyLeave_hw e ev w)) rid ''userEmail'' = Some u" by (simp add: r stored_def)
  show "stored (snd (applyLeave_hw e ev w)) rid ''leaveType'' = Some l" by (simp add: r stored_def)
  show "stored (snd (applyLeave_hw e ev w)) rid ''status'' = Some ''PENDING''" by (simp add: r stored_def)
qed

theorem put_replaces_existing_witness:
  "configured sample_env \<and> valid_body other_body \<and> dynamo_ok created_world \<and>
   table created_world ''LEAVE-1743465600000'' = Some sample_item \<and>
   stored (snd (applyLeave sample_env 1743465600000 (apply_event other_body) created_world))
     ''LEAVE-1743465600000'' ''userEmail'' = Some ''other@example.com'' \<and>
   stored (snd (applyLeave sample_env 1743465600000 (apply_event other_body) created_world))
     ''LEAVE-1743465600000'' ''status'' = Some ''PENDING'' \<and>
   stored (snd (applyLeave_hw sample_env (sample_input\<lparr> userEmail := Some ''other@example.com'' \<rparr>)
                  created_world))
     ''LEAVE-1743465600000'' ''userEmail'' = Some ''other@example.com''"
proof -
  let ?ev = "sample_input\<lparr> userEmail := Some ''other@example.com'' \<rparr>"
  let ?d = "\<lparr> leaveType = Some ''Vacation'', startDate = Some ''2025-04-01'',
              endDate = Some ''2025-04-05'', reason = Some ''Not provided'' \<rparr>"
  have old: "table created_world ''LEAVE-1743465600000'' = Some sample_item"
    by (simp add: created_world_fields(1))
  note T = put_replaces_existing [where e = sample_env and event = "apply_event other_body"
      and b = other_body and w = created_world and now = 1743465600000 and old = sample_item
      and u = "''other@example.com''" and a = "''approver@example.com''" and l = "''Vacation''"
      and s = "''2025-04-01''" and n = "''2025-04-05''" and ev = ?ev and d = ?d
      and rid = "''LEAVE-1743465600000''"]
  have h1: "configured sample_env \<and> parse_body (body' (apply_event other_body)) = Inr other_body \<and>
      valid_body other_body \<and> dynamo_ok created_world \<and>
      table created_world (''LEAVE-'' @ show_nat 1743465600000) = Some sample_item"
    using sample_facts(1) other_facts created_world_dynamo old by (simp add: sample_now)
  have h2: "configured sample_env \<and>
      ''other@example.com'' \<noteq> [] \<and> ''approver@example.com'' \<noteq> [] \<and> ''Vacation'' \<noteq> [] \<and>
      ''2025-04-01'' \<noteq> [] \<and> ''2025-04-05'' \<noteq> [] \<and>
      userEmail ?ev = Some ''other@example.com'' \<and> approverEmail ?ev = Some ''approver@example.com'' \<and>
      leaveDetails ?ev = Some ?d \<and>
      leaveType ?d = Some ''Vacation'' \<and> startDate ?d = Some ''2025-04-01'' \<and>
      endDate ?d = Some ''2025-04-05'' \<and>
      requestId ?ev = Some ''LEAVE-1743465600000'' \<and> ''LEAVE-1743465600000'' \<noteq> [] \<and>
      dynamo_ok created_world \<and> table created_world ''LEAVE-1743465600000'' = Some sample_item"
    using sample_facts(1) created_world_dynamo old
    by (simp add: sample_input_def)
  note r1 = mp [OF conjunct1 [OF T] h1] and r2 = mp [OF conjunct2 [OF T] h2]
  have a: "stored (snd (applyLeave sample_env 1743465600000 (apply_event other_body) created_world))
     ''LEAVE-1743465600000'' ''userEmail'' = Some ''other@example.com''"
    and b: "stored (snd (applyLeave sample_env 1743465600000 (apply_event other_body) created_world))
     ''LEAVE-1743465600000'' ''status'' = Some ''PENDING''"
    using r1 by (simp_all add: sample_now other_body_def)
  have c: "stored (snd (applyLeave_hw sample_env ?ev created_world))
     ''LEAVE-1743465600000'' ''userEmail'' = Some ''other@example.com''"
    using r2 by simp
  from sample_facts(1) other_facts(2) created_world_dynamo old a b c show ?thesis
    by (intro conjI)
qed

lemma Create_valid:
  assumes "configured e" and "parse_body (body' event) = Inr b" and "valid_body b"
    and "dynamo_ok w" and "sfn_ok w" and "ses_ok w" and "started w = []"
  shows "\<exists>it. defined_item (leave_item (''LEAVE-'' @ show_nat now) b) = Some it \<and>
           snd (Create e now tok event w) =
             w\<lparr> table := (table w)((''LEAVE-'' @ show_nat now) \<mapsto> it),
                started := [],
                tasks := (tasks w)(tok \<mapsto> Waiting
                  (leave_input (''LEAVE-'' @ show_nat now) b
                     (''https://'' @ interp (domainName (requestContext event)) @ ''/'' @
                      interp (stage (requestContext event))))),
                log := log w @
                  [PutItem (interp (TABLE_NAME e)) (leave_item (''LEAVE-'' @ show_nat now) b),
                   StartExecution (interp (STATE_MACHINE_ARN e))
                     (leave_input (''LEAVE-'' @ show_nat now) b
                        (''https://'' @ interp (domainName (requestContext event)) @ ''/'' @
                         interp (stage (requestContext event)))),
                   SendEmail (approval_emailParams e
                     ((leave_input (''LEAVE-'' @ show_nat now) b
                        (''https://'' @ interp (domainName (requestContext event)) @ ''/'' @
                         interp (stage (requestContext event))))\<lparr> taskToken := Some tok \<rparr>))] \<rparr>"
proof -
  define inp where "inp = leave_input (''LEAVE-'' @ show_nat now) b
                     (''https://'' @ interp (domainName (requestContext event)) @ ''/'' @
                      interp (stage (requestContext event)))"
  from applyLeave_stored [OF assms(1-4), of now]
  obtain it where it: "defined_item (leave_item (''LEAVE-'' @ show_nat now) b) = Some it"
    and r: "snd (applyLeave e now event w) =
              w\<lparr> table := (table w)((''LEAVE-'' @ show_nat now) \<mapsto> it),
                 started := started w @ [inp],
                 log := log w @
                   [PutItem (interp (TABLE_NAME e)) (leave_item (''LEAVE-'' @ show_nat now) b),
                    StartExecution (interp (STATE_MACHINE_ARN e)) inp] \<rparr>"
    unfolding inp_def using assms(5) by (elim exE conjE) simp
  define w1 where "w1 = snd (applyLeave e now event w)"
  have f: "started w1 = inp # []" "ses_ok w1"
    using assms(6,7) by (simp_all add: w1_def r)
  have c: "snd (Create e now tok event w) =
          w1\<lparr> started := [], tasks := (tasks w1)(tok \<mapsto> Waiting inp),
              log := log w1 @ [SendEmail (approval_emailParams e (inp\<lparr> taskToken := Some tok \<rparr>))] \<rparr>"
    using ask_state_sends [OF f, of e tok] by (simp add: Create_split w1_def)
  have "snd (Create e now tok event w) =
             w\<lparr> table := (table w)((''LEAVE-'' @ show_nat now) \<mapsto> it),
                started := [],
                tasks := (tasks w)(tok \<mapsto> Waiting inp),
                log := log w @
                  [PutItem (interp (TABLE_NAME e)) (leave_item (''LEAVE-'' @ show_nat now) b),
                   StartExecution (interp (STATE_MACHINE_ARN e)) inp,
                   SendEmail (approval_emailParams e (inp\<lparr> taskToken := Some tok \<rparr>))] \<rparr>"
    unfolding c unfolding w1_def r by simp
  with it show ?thesis unfolding inp_def by (intro exI conjI)
qed

lemma created_world_started: "started created_world = []"
proof -
  have "dynamo_ok world0" "sfn_ok world0" "ses_ok world0" "started world0 = []"
    by (simp_all add: world0_def)
  from Create_valid [OF sample_facts(1-3) this, of 1743465600000 "''T1''"]
  show ?thesis unfolding created_world_def by (elim exE conjE) simp
qed

lemma recreated_world_fields:
  "stored recreated_world ''LEAVE-1743465600000'' ''userEmail'' = Some ''other@example.com''"
  "stored recreated_world ''LEAVE-1743465600000'' ''leaveType'' = Some ''Sick''"
  "tasks recreated_world ''T1'' = Some (Waiting sample_input)"
  "ready recreated_world = []" "sfn_ok recreated_world" "ses_ok recreated_world"
proof -
  from Create_valid [OF sample_facts(1) other_facts created_world_dynamo created_world_fields(4,5)
      created_world_started, of 1743465600000 "''T2''"]
  obtain it where it: "defined_item (leave_item ''LEAVE-1743465600000'' other_body) = Some it"
    and f: "table recreated_world ''LEAVE-1743465600000'' = Some it"
      "tasks recreated_world ''T1'' = tasks created_world ''T1''"
      "ready recreated_world = ready created_world"
      "sfn_ok recreated_world = sfn_ok created_world"
      "ses_ok recreated_world = ses_ok created_world"
    unfolding recreated_world_def by (elim exE conjE) (simp add: sample_now)
  from it have m: "map_of it ''userEmail'' = Some ''other@example.com''"
    "map_of it ''leaveType'' = Some ''Sick''"
    by (auto simp: leave_item_def other_body_def)
  show "stored recreated_world ''LEAVE-1743465600000'' ''userEmail'' = Some ''other@example.com''"
    "stored recreated_world ''LEAVE-1743465600000'' ''leaveType'' = Some ''Sick''"
    by (simp_all only: stored_lookup [OF f(1)] m)
  show "tasks recreated_world ''T1'' = Some (Waiting sample_input)"
    "ready recreated_world = []" "sfn_ok recreated_world" "ses_ok recreated_world"
    by (simp_all add: f created_world_fields)
qed

lemma sublist_between: "sublist xs (ps @ xs @ ss)"
  by (auto simp: sublist_def)

lemma outcome_email_fields:
  "ToAddresses (outcome_emailParams e ev) = [userEmail ev]"
  "sublist (stringify_details (leaveDetails ev)) (HtmlData (outcome_emailParams e ev))"
  "sublist (interp (requestId ev)) (HtmlData (outcome_emailParams e ev))"
proof -
  show "ToAddresses (outcome_emailParams e ev) = [userEmail ev]"
    by (simp add: outcome_emailParams_def Let_def)
  have h: "HtmlData (outcome_emailParams e ev) =
      ''<p>Your leave request ('' @ interp (requestId ev) @
      ('') has been '' @ (if approvalStatus ev = Some ''APPROVED'' then ''APPROVED'' else ''REJECTED'') @
       ''.</p>'' @ ''<p>Details: '' @ stringify_details (leaveDetails ev) @ ''</p>'')"
    by (simp add: outcome_emailParams_def Let_def)
  show "sublist (interp (requestId ev)) (HtmlData (outcome_emailParams e ev))"
    unfolding h by (rule sublist_between)
  have h': "HtmlData (outcome_emailParams e ev) =
      (''<p>Your leave request ('' @ interp (requestId ev) @
       '') has been '' @ (if approvalStatus ev = Some ''APPROVED'' then ''APPROVED'' else ''REJECTED'') @
       ''.</p>'' @ ''<p>Details: '') @ stringify_details (leaveDetails ev) @ ''</p>''"
    by (simp add: outcome_emailParams_def Let_def)
  show "sublist (stringify_details (leaveDetails ev)) (HtmlData (outcome_emailParams e ev))"
    unfolding h' by (rule sublist_between)
qed

lemma sample_outcome_html:
  \<open>HtmlData (outcome_emailParams sample_env (sample_input\<lparr> approvalStatus := Some ''APPROVED'' \<rparr>)) =
     ''<p>Your leave request (LEAVE-1743465600000) has been APPROVED.</p><p>Details: {"leaveType":"Vacation","startDate":"2025-04-01","endDate":"2025-04-05","reason":"Not provided"}</p>''\<close>
  by (simp add: outcome_emailParams_def sample_input_def json_object_def json_string_def
      json_escape_def)

text \<open>
  C8 (counterexample). Two requests are created in the same millisecond, so the store
  holds the second one's record under their common requestId: requester
  other@example.com, leave type Sick. The approver of the first follows the approve link
  with the first token. The outcome notification goes to user@example.com with the
  first request's details, which are not in the store: they come from the state of the
  workflow execution.
\<close>

theorem notification_source_counterexample:
  \<open>stored recreated_world ''LEAVE-1743465600000'' ''userEmail'' = Some ''other@example.com'' \<and>
   stored recreated_world ''LEAVE-1743465600000'' ''leaveType'' = Some ''Sick'' \<and>
   sent (log (snd (Resume sample_env (resume_event ''LEAVE-1743465600000'' ''approve'' ''T1'')
                     recreated_world))) =
     sent (log recreated_world) @
     [outcome_emailParams sample_env (sample_input\<lparr> approvalStatus := Some ''APPROVED'' \<rparr>)] \<and>
   ToAddresses (outcome_emailParams sample_env (sample_input\<lparr> approvalStatus := Some ''APPROVED'' \<rparr>)) =
     [Some ''user@example.com''] \<and>
   HtmlData (outcome_emailParams sample_env (sample_input\<lparr> approvalStatus := Some ''APPROVED'' \<rparr>)) =
     ''<p>Your leave request (LEAVE-1743465600000) has been APPROVED.</p><p>Details: {"leaveType":"Vacation","startDate":"2025-04-01","endDate":"2025-04-05","reason":"Not provided"}</p>''\<close>
proof -
  have n: "''LEAVE-1743465600000'' \<noteq> []" "''approve'' \<noteq> []" "''T1'' \<noteq> []" by simp_all
  note R = Resume_accepted(2) [OF resume_event_query(1,2) n(1) resume_event_query(3) n(2)
      resume_event_query(4) n(3) recreated_world_fields(5,3,4), of sample_env]
  have s: "sent (log (snd (Resume sample_env (resume_event ''LEAVE-1743465600000'' ''approve'' ''T1'')
                     recreated_world))) =
     sent (log recreated_world) @
     [outcome_emailParams sample_env (sample_input\<lparr> approvalStatus := Some ''APPROVED'' \<rparr>)]"
    by (simp add: R recreated_world_fields(6) sent_append)
  have t: "ToAddresses (outcome_emailParams sample_env (sample_input\<lparr> approvalStatus := Some ''APPROVED'' \<rparr>)) =
     [Some ''user@example.com'']"
    by (simp add: outcome_email_fields(1) sample_input_def)
  note l = sample_outcome_html
  from recreated_world_fields(1,2) s t l show ?thesis by (intro conjI)
qed

text \<open>
  C8 (amended). For every successful Resume, the request id, the leaveDetails and the
  requester's address used in the outcome notification are those of the workflow
  execution's input, built at creation time and kept by Step Functions with the token;
  nothing is read from the store, whose content does not matter. The external Resume
  caller influences the outcome only through the token and the decision: two calls with
  the same token and decision leave the services in the same state, whatever request id,
  body or request context they carry.
\<close>

theorem notification_from_execution_input:
  assumes "queryStringParameters event = Some q"
    and "q ''requestId'' = Some rid" and "rid \<noteq> []"
    and "q ''action'' = Some a" and "a \<noteq> []"
    and "q ''taskToken'' = Some tok" and "tok \<noteq> []"
    and "sfn_ok w" and "tasks w tok = Some (Waiting st)" and "ready w = []" and "ses_ok w"
  shows "(\<exists>m. sent (log (snd (Resume e event w))) = sent (log w) @ [m] \<and>
              ToAddresses m = [userEmail st] \<and>
              sublist (interp (requestId st)) (HtmlData m) \<and>
              sublist (stringify_details (leaveDetails st)) (HtmlData m)) \<and>
         (\<forall>t. Resume e event (w\<lparr> table := t \<rparr>) =
                (fst (Resume e event w), (snd (Resume e event w))\<lparr> table := t \<rparr>)) \<and>
         (\<forall>event' q' rid'.
            queryStringParameters event' = Some q' \<and> q' ''requestId'' = Some rid' \<and> rid' \<noteq> [] \<and>
            q' ''action'' = Some a \<and> q' ''taskToken'' = Some tok \<longrightarrow>
            snd (Resume e event' w) = snd (Resume e event w))"
proof (intro conjI allI impI)
  note R2 = Resume_accepted(2) [OF assms(1-10), of e]
  let ?m = "outcome_emailParams e
              (st\<lparr> approvalStatus := Some (if a = ''approve'' then ''APPROVED'' else ''REJECTED'') \<rparr>)"
  have "sent (log (snd (Resume e event w))) = sent (log w) @ [?m]"
    by (simp add: R2 assms(11) sent_append)
  moreover have "ToAddresses ?m = [userEmail st]"
    by (simp add: outcome_email_fields(1))
  moreover have "sublist (interp (requestId st)) (HtmlData ?m)"
    using outcome_email_fields(3) [of "st\<lparr> approvalStatus := Some (if a = ''approve'' then ''APPROVED'' else ''REJECTED'') \<rparr>" e]
    by simp
  moreover have "sublist (stringify_details (leaveDetails st)) (HtmlData ?m)"
    using outcome_email_fields(2) [of "st\<lparr> approvalStatus := Some (if a = ''approve'' then ''APPROVED'' else ''REJECTED'') \<rparr>" e]
    by simp
  ultimately show "\<exists>m. sent (log (snd (Resume e event w))) = sent (log w) @ [m] \<and>
              ToAddresses m = [userEmail st] \<and>
              sublist (interp (requestId st)) (HtmlData m) \<and>
              sublist (stringify_details (leaveDetails st)) (HtmlData m)"
    by (intro exI conjI)
next
  fix t
  have f: "sfn_ok (w\<lparr> table := t \<rparr>)" "tasks (w\<lparr> table := t \<rparr>) tok = Some (Waiting st)"
    "ready (w\<lparr> table := t \<rparr>) = []"
    using assms(8-10) by simp_all
  note A1 = Resume_accepted(1) [OF assms(1-7) f, of e] and A2 = Resume_accepted(2) [OF assms(1-7) f, of e]
  note B1 = Resume_accepted(1) [OF assms(1-10), of e] and B2 = Resume_accepted(2) [OF assms(1-10), of e]
  have "fst (Resume e event (w\<lparr> table := t \<rparr>)) = fst (Resume e event w)"
    by (simp add: A1 B1)
  moreover have "snd (Resume e event (w\<lparr> table := t \<rparr>)) = (snd (Resume e event w))\<lparr> table := t \<rparr>"
    by (simp add: A2 B2)
  ultimately show "Resume e event (w\<lparr> table := t \<rparr>) =
                (fst (Resume e event w), (snd (Resume e event w))\<lparr> table := t \<rparr>)"
    by (simp add: prod_eq_iff)
next
  fix event' :: proxy_event and q' :: "string \<rightharpoonup> string" and rid' :: string
  assume h: "queryStringParameters event' = Some q' \<and> q' ''requestId'' = Some rid' \<and> rid' \<noteq> [] \<and>
            q' ''action'' = Some a \<and> q' ''taskToken'' = Some tok"
  then have g: "queryStringParameters event' = Some q'" "q' ''requestId'' = Some rid'" "rid' \<noteq> []"
    "q' ''action'' = Some a" "q' ''taskToken'' = Some tok"
    by simp_all
  note A2 = Resume_accepted(2) [OF g(1-4) assms(5) g(5) assms(7-10), of e]
  note B2 = Resume_accepted(2) [OF assms(1-10), of e]
  show "snd (Resume e event' w) = snd (Resume e event w)"
    by (simp add: A2 B2)
qed

theorem notification_from_execution_input_witness:
  "sfn_ok created_world \<and> tasks created_world ''T1'' = Some (Waiting sample_input) \<and>
   ready created_world = [] \<and> ses_ok created_world \<and>
   (\<exists>m. sent (log (snd (Resume sample_env (resume_event ''LEAVE-1743465600000'' ''approve'' ''T1'')
                          created_world))) = sent (log created_world) @ [m] \<and>
        ToAddresses m = [Some ''user@example.com'']) \<and>
   Resume sample_env (resume_event ''LEAVE-1743465600000'' ''approve'' ''T1'')
     (created_world\<lparr> table := Map.empty \<rparr>) =
     (fst (Resume sample_env (resume_event ''LEAVE-1743465600000'' ''approve'' ''T1'') created_world),
      (snd (Resume sample_env (resume_event ''LEAVE-1743465600000'' ''approve'' ''T1'') created_world))
        \<lparr> table := Map.empty \<rparr>) \<and>
   snd (Resume sample_env (resume_event ''LEAVE-0'' ''approve'' ''T1'') created_world) =
   snd (Resume sample_env (resume_event ''LEAVE-1743465600000'' ''approve'' ''T1'') created_world)"
proof -
  let ?ev = "resume_event ''LEAVE-1743465600000'' ''approve'' ''T1''"
  have n: "''LEAVE-1743465600000'' \<noteq> []" "''approve'' \<noteq> []" "''T1'' \<noteq> []" by simp_all
  note T = notification_from_execution_input [OF resume_event_query(1,2) n(1) resume_event_query(3)
      n(2) resume_event_query(4) n(3) created_world_fields(4,2,3,5), of sample_env]
  from conjunct1 [OF T]
  obtain m where m: "sent (log (snd (Resume sample_env ?ev created_world))) = sent (log created_world) @ [m]"
    "ToAddresses m = [userEmail sample_input]"
    by (elim exE conjE)
  have u: "userEmail sample_input = Some ''user@example.com''"
    by (simp add: sample_input_def)
  have a: "\<exists>m. sent (log (snd (Resume sample_env ?ev created_world))) = sent (log created_world) @ [m] \<and>
        ToAddresses m = [Some ''user@example.com'']"
    using m u by (intro exI [of _ m] conjI) simp_all
  note b = spec [OF conjunct1 [OF conjunct2 [OF T]], of Map.empty]
  have h: "queryStringParameters (resume_event ''LEAVE-0'' ''approve'' ''T1'') =
             Some [''requestId'' \<mapsto> ''LEAVE-0'', ''action'' \<mapsto> ''approve'', ''taskToken'' \<mapsto> ''T1''] \<and>
           [''requestId'' \<mapsto> ''LEAVE-0'', ''action'' \<mapsto> ''approve'', ''taskToken'' \<mapsto> ''T1''] ''requestId'' =
             Some ''LEAVE-0'' \<and> ''LEAVE-0'' \<noteq> [] \<and>
           [''requestId'' \<mapsto> ''LEAVE-0'', ''action'' \<mapsto> ''approve'', ''taskToken'' \<mapsto> ''T1''] ''action'' =
             Some ''approve'' \<and>
           [''requestId'' \<mapsto> ''LEAVE-0'', ''action'' \<mapsto> ''approve'', ''taskToken'' \<mapsto> ''T1''] ''taskToken'' =
             Some ''T1''"
    by (simp add: resume_event_def)
  note c = mp [OF spec [OF spec [OF spec [OF conjunct2 [OF conjunct2 [OF T]]]]] h]
  from created_world_fields(4,2,3,5) a b c show ?thesis by (intro conjI)
qed

lemma show_nat_digits: "set (show_nat n) \<subseteq> set ''0123456789''"
proof (induction n rule: show_nat.induct)
  case (1 n)
  show ?case
  proof (cases "n < 10")
    case True
    then have "''0123456789'' ! n \<in> set ''0123456789''"
      by (intro nth_mem) simp
    with True show ?thesis by (subst show_nat.simps) simp
  next
    case False
    have "n mod 10 < 10" by simp
    then have "''0123456789'' ! (n mod 10) \<in> set ''0123456789''"
      by (intro nth_mem) simp
    with False "1.IH" show ?thesis by (subst show_nat.simps) simp
  qed
qed

lemma percent_chars: "c' \<in> set (percent c) \<Longrightarrow> uri_char c'"
proof -
  assume m: "c' \<in> set (percent c)"
  have "(of_char c :: nat) < 16 * 16" using nat_of_char_less_256 [of c] by simp
  then have "(of_char c :: nat) div 16 < 16"
    by (rule less_mult_imp_div_less)
  moreover have "(of_char c :: nat) mod 16 < 16" by simp
  ultimately have h: "''0123456789ABCDEF'' ! (of_char c div 16) \<in> set ''0123456789ABCDEF''"
    and l: "''0123456789ABCDEF'' ! (of_char c mod 16) \<in> set ''0123456789ABCDEF''"
    by (intro nth_mem; simp)+
  from m have "c' = CHR ''%'' \<or> c' = ''0123456789ABCDEF'' ! (of_char c div 16) \<or>
      c' = ''0123456789ABCDEF'' ! (of_char c mod 16)"
    unfolding percent_def by simp
  then show ?thesis
  proof (elim disjE)
    assume "c' = CHR ''%''"
    then show ?thesis unfolding uri_char_def by (intro disjI2 disjI1)
  next
    assume "c' = ''0123456789ABCDEF'' ! (of_char c div 16)"
    with h show ?thesis unfolding uri_char_def by (intro disjI2) (simp only:)
  next
    assume "c' = ''0123456789ABCDEF'' ! (of_char c mod 16)"
    with l show ?thesis unfolding uri_char_def by (intro disjI2) (simp only:)
  qed
qed

lemma encode_chars: "c \<in> set (encodeURIComponent s) \<Longrightarrow> uri_char c"
proof (induction s)
  case Nil
  then show ?case by (simp add: encodeURIComponent_def)
next
  case (Cons x xs)
  have e: "encodeURIComponent (x # xs) =
      (if uri_unreserved x then [x] else percent x) @ encodeURIComponent xs"
    by (simp add: encodeURIComponent_def)
  from Cons.prems have "c \<in> set (if uri_unreserved x then [x] else percent x) \<or>
      c \<in> set (encodeURIComponent xs)"
    unfolding e by simp
  then show ?case
  proof
    assume a: "c \<in> set (if uri_unreserved x then [x] else percent x)"
    show ?thesis
    proof (cases "uri_unreserved x")
      case True
      with a have "c = x" by simp
      with True show ?thesis unfolding uri_char_def by (intro disjI1) (simp only:)
    next
      case False
      with a have "c \<in> set (percent x)" by simp
      then show ?thesis by (rule percent_chars)
    qed
  next
    assume "c \<in> set (encodeURIComponent xs)"
    then show ?thesis by (rule Cons.IH)
  qed
qed

lemma separators_reserved:
  "\<not> uri_char (CHR ''&'')" "\<not> uri_char (CHR ''='')" "\<not> uri_char (CHR ''?'')"
  "\<not> uri_char (CHR ''#'')" "\<not> uri_char (CHR 0x22)"
  by (simp_all add: uri_char_def uri_unreserved_def)

lemma encode_no_separator:
  "CHR ''&'' \<notin> set (encodeURIComponent s)" "CHR ''='' \<notin> set (encodeURIComponent s)"
  "CHR ''?'' \<notin> set (encodeURIComponent s)" "CHR ''#'' \<notin> set (encodeURIComponent s)"
  "CHR 0x22 \<notin> set (encodeURIComponent s)"
  using encode_chars [of _ s] separators_reserved by blast+

lemma approval_email_fields:
  "ToAddresses (approval_emailParams e ev) = [approverEmail ev]"
  "sublist (''<a href='' @ [CHR 0x22] @ approveUrl ev @ [CHR 0x22]) (HtmlData (approval_emailParams e ev))"
  "sublist (''<a href='' @ [CHR 0x22] @ rejectUrl ev @ [CHR 0x22]) (HtmlData (approval_emailParams e ev))"
proof -
  show "ToAddresses (approval_emailParams e ev) = [approverEmail ev]"
    by (simp add: approval_emailParams_def)
  have h: "HtmlData (approval_emailParams e ev) =
      (''<p>A leave request ('' @ interp (requestId ev) @ '') from '' @
       interp (userEmail ev) @ '' needs your approval:</p>'' @
       ''<p>Details: '' @ stringify_details (leaveDetails ev) @ ''</p>'' @ ''<p>'') @
      (''<a href='' @ [CHR 0x22] @ approveUrl ev @ [CHR 0x22]) @
      (''><button>Approve</button></a> <a href='' @ [CHR 0x22] @ rejectUrl ev @
       [CHR 0x22] @ ''><button>Reject</button></a></p>'')"
    by (simp add: approval_emailParams_def)
  show "sublist (''<a href='' @ [CHR 0x22] @ approveUrl ev @ [CHR 0x22]) (HtmlData (approval_emailParams e ev))"
    unfolding h by (rule sublist_between)
  have h': "HtmlData (approval_emailParams e ev) =
      (''<p>A leave request ('' @ interp (requestId ev) @ '') from '' @
       interp (userEmail ev) @ '' needs your approval:</p>'' @
       ''<p>Details: '' @ stringify_details (leaveDetails ev) @ ''</p>'' @
       ''<p><a href='' @ [CHR 0x22] @ approveUrl ev @ [CHR 0x22] @
       ''><button>Approve</button></a> '') @
      (''<a href='' @ [CHR 0x22] @ rejectUrl ev @ [CHR 0x22]) @
      ''><button>Reject</button></a></p>''"
    by (simp add: approval_emailParams_def)
  show "sublist (''<a href='' @ [CHR 0x22] @ rejectUrl ev @ [CHR 0x22]) (HtmlData (approval_emailParams e ev))"
    unfolding h' by (rule sublist_between)
qed

lemma digits_no_separator:
  "CHR ''&'' \<notin> set (show_nat n)" "CHR ''='' \<notin> set (show_nat n)"
  using show_nat_digits [of n] by auto

lemma query_separators:
  assumes "CHR ''&'' \<notin> set r" "CHR ''='' \<notin> set r" "CHR ''&'' \<notin> set t" "CHR ''='' \<notin> set t"
  shows "count_list (''requestId=LEAVE-'' @ r @ ''&action=approve&taskToken='' @ t) (CHR ''&'') = 2"
    and "count_list (''requestId=LEAVE-'' @ r @ ''&action=approve&taskToken='' @ t) (CHR ''='') = 3"
    and "count_list (''requestId=LEAVE-'' @ r @ ''&action=reject&taskToken='' @ t) (CHR ''&'') = 2"
    and "count_list (''requestId=LEAVE-'' @ r @ ''&action=reject&taskToken='' @ t) (CHR ''='') = 3"
  using assms by (simp_all add: count_list_0_iff [THEN iffD2])

lemma hex_value_table:
  "list_all (\<lambda>n. hex_value (''0123456789ABCDEF'' ! n) = Some n) [0..<16]"
  by code_simp

lemma hex_value_upper: "n < 16 \<Longrightarrow> hex_value (''0123456789ABCDEF'' ! n) = Some n"
proof -
  assume "n < 16"
  then have "n \<in> set [0..<16]" by simp
  with hex_value_table show ?thesis
    unfolding list_all_iff by (rule bspec)
qed

lemma decode_percent:
  "decodeURIComponent (percent c @ ys) = map_option (\<lambda>r. c # r) (decodeURIComponent ys)"
proof -
  have "(of_char c :: nat) < 16 * 16" using nat_of_char_less_256 [of c] by simp
  then have h: "(of_char c :: nat) div 16 < 16"
    by (rule less_mult_imp_div_less)
  have l: "(of_char c :: nat) mod 16 < 16" by simp
  have v: "char_of (16 * ((of_char c :: nat) div 16) + of_char c mod 16) = c"
    by simp
  show ?thesis
    by (simp add: percent_def hex_value_upper [OF h] hex_value_upper [OF l] v)
qed

lemma percent_unreserved: "\<not> uri_unreserved (CHR ''%'')"
  by (simp add: uri_unreserved_def)

lemma decode_encode: "decodeURIComponent (encodeURIComponent s) = Some s"
proof (induction s)
  case Nil
  show ?case by (simp add: encodeURIComponent_def)
next
  case (Cons x xs)
  have e: "encodeURIComponent (x # xs) =
      (if uri_unreserved x then [x] else percent x) @ encodeURIComponent xs"
    by (simp add: encodeURIComponent_def)
  show ?case
  proof (cases "uri_unreserved x")
    case True
    with percent_unreserved have "x \<noteq> CHR ''%''" by auto
    with True Cons.IH show ?thesis unfolding e by simp
  next
    case False
    with Cons.IH show ?thesis unfolding e by (simp add: decode_percent)
  qed
qed

lemma encode_injective: "encodeURIComponent s = encodeURIComponent t \<Longrightarrow> s = t"
proof -
  assume "encodeURIComponent s = encodeURIComponent t"
  then have "decodeURIComponent (encodeURIComponent s) = decodeURIComponent (encodeURIComponent t)"
    by (rule arg_cong)
  then show ?thesis by (simp only: decode_encode option.inject)
qed

text \<open>
  C9. For every Create, the approval message holds an approve link and a reject link.
  Each is the base address, the path \<open>/process-approval\<close> and a query of exactly the
  three parameters \<open>requestId\<close>, \<open>action\<close> (the decision) and \<open>taskToken\<close>: the request
  id is a run of digits after \<open>LEAVE-\<close> and the token is percent-encoded, so neither
  adds a separator, and the query has two \<open>&\<close> and three \<open>=\<close>. The base address is
  \<open>https://\<close>, the domain name of the inbound request, a slash and its stage. The
  values are those of this request: the request id of the links is the one that Create
  returns, the token is the one under which the workflow waits with this request's
  input, and the encoded token names it and no other, since decoding gives the token
  back and two tokens with the same encoding are equal.
\<close>

theorem resume_links:
  fixes e :: env and now :: nat and event :: proxy_event and w :: world and tok :: string
  defines "base \<equiv> ''https://'' @ interp (domainName (requestContext event)) @ ''/'' @
                 interp (stage (requestContext event))"
    and "approve \<equiv> ''requestId=LEAVE-'' @ show_nat now @ ''&action=approve&taskToken='' @
                    encodeURIComponent tok"
    and "reject \<equiv> ''requestId=LEAVE-'' @ show_nat now @ ''&action=reject&taskToken='' @
                   encodeURIComponent tok"
  assumes "configured e" and "parse_body (body' event) = Inr b" and "valid_body b"
    and "dynamo_ok w" and "sfn_ok w" and "ses_ok w" and "started w = []"
  shows "(\<exists>m. sent (log (snd (Create e now tok event w))) = sent (log w) @ [m] \<and>
              ToAddresses m = [b ''approverEmail''] \<and>
              sublist (''<a href='' @ [CHR 0x22] @ base @ ''/process-approval?'' @ approve @ [CHR 0x22])
                (HtmlData m) \<and>
              sublist (''<a href='' @ [CHR 0x22] @ base @ ''/process-approval?'' @ reject @ [CHR 0x22])
                (HtmlData m)) \<and>
         count_list approve (CHR ''&'') = 2 \<and> count_list approve (CHR ''='') = 3 \<and>
         count_list reject (CHR ''&'') = 2 \<and> count_list reject (CHR ''='') = 3 \<and>
         (\<forall>c \<in> set (encodeURIComponent tok). uri_char c) \<and>
         set (show_nat now) \<subseteq> set ''0123456789'' \<and>
         decodeURIComponent (encodeURIComponent tok) = Some tok \<and>
         (\<forall>tok'. encodeURIComponent tok' = encodeURIComponent tok \<longrightarrow> tok' = tok) \<and>
         fst (Create e now tok event w) =
           \<lparr> statusCode = 200, headers = [],
             body = Json [(''message'', ''Leave applied''),
                          (''requestId'', ''LEAVE-'' @ show_nat now)] \<rparr> \<and>
         tasks (snd (Create e now tok event w)) tok =
           Some (Waiting (leave_input (''LEAVE-'' @ show_nat now) b base))"
proof (intro conjI)
  define inp where "inp = (leave_input (''LEAVE-'' @ show_nat now) b base)\<lparr> taskToken := Some tok \<rparr>"
  from Create_valid [OF assms(4-10), of now tok]
  have l: "log (snd (Create e now tok event w)) =
             log w @
              [PutItem (interp (TABLE_NAME e)) (leave_item (''LEAVE-'' @ show_nat now) b),
               StartExecution (interp (STATE_MACHINE_ARN e))
                 (leave_input (''LEAVE-'' @ show_nat now) b base),
               SendEmail (approval_emailParams e inp)]"
    unfolding inp_def base_def by (elim exE conjE) simp
  have s: "sent (log (snd (Create e now tok event w))) = sent (log w) @ [approval_emailParams e inp]"
    unfolding l by (simp add: sent_append)
  have a: "approveUrl inp = base @ ''/process-approval?'' @ approve"
    and r: "rejectUrl inp = base @ ''/process-approval?'' @ reject"
    and t: "approverEmail inp = b ''approverEmail''"
    by (simp_all add: approveUrl_def rejectUrl_def inp_def leave_input_def approve_def reject_def)
  from approval_email_fields [where e = e and ev = inp]
  have "ToAddresses (approval_emailParams e inp) = [b ''approverEmail'']"
    and "sublist (''<a href='' @ [CHR 0x22] @ base @ ''/process-approval?'' @ approve @ [CHR 0x22])
           (HtmlData (approval_emailParams e inp))"
    and "sublist (''<a href='' @ [CHR 0x22] @ base @ ''/process-approval?'' @ reject @ [CHR 0x22])
           (HtmlData (approval_emailParams e inp))"
    unfolding a r t by simp_all
  with s show "\<exists>m. sent (log (snd (Create e now tok event w))) = sent (log w) @ [m] \<and>
              ToAddresses m = [b ''approverEmail''] \<and>
              sublist (''<a href='' @ [CHR 0x22] @ base @ ''/process-approval?'' @ approve @ [CHR 0x22])
                (HtmlData m) \<and>
              sublist (''<a href='' @ [CHR 0x22] @ base @ ''/process-approval?'' @ reject @ [CHR 0x22])
                (HtmlData m)"
    by (intro exI conjI)
next
  note q = query_separators [OF digits_no_separator [of now] encode_no_separator(1,2) [of tok]]
  show "count_list approve (CHR ''&'') = 2" unfolding approve_def by (rule q(1))
  show "count_list approve (CHR ''='') = 3" unfolding approve_def by (rule q(2))
  show "count_list reject (CHR ''&'') = 2" unfolding reject_def by (rule q(3))
  show "count_list reject (CHR ''='') = 3" unfolding reject_def by (rule q(4))
next
  show "\<forall>c \<in> set (encodeURIComponent tok). uri_char c"
    by (intro ballI) (rule encode_chars)
next
  show "set (show_nat now) \<subseteq> set ''0123456789''"
    by (rule show_nat_digits)
next
  show "decodeURIComponent (encodeURIComponent tok) = Some tok"
    by (rule decode_encode)
next
  show "\<forall>tok'. encodeURIComponent tok' = encodeURIComponent tok \<longrightarrow> tok' = tok"
    by (intro allI impI) (rule encode_injective)
next
  from applyLeave_stored [OF assms(4-7), of now]
  show "fst (Create e now tok event w) =
           \<lparr> statusCode = 200, headers = [],
             body = Json [(''message'', ''Leave applied''),
                          (''requestId'', ''LEAVE-'' @ show_nat now)] \<rparr>"
    using assms(8) by (elim exE conjE) (simp add: Create_split(1))
next
  from Create_valid [OF assms(4-10), of now tok]
  show "tasks (snd (Create e now tok event w)) tok =
           Some (Waiting (leave_input (''LEAVE-'' @ show_nat now) b base))"
    unfolding base_def by (elim exE conjE) simp
qed

lemma sample_token: "encodeURIComponent ''AQ+b/c='' = ''AQ%2Bb%2Fc%3D''"
  by (simp add: encodeURIComponent_def uri_unreserved_def percent_def)

theorem resume_links_witness:
  \<open>configured sample_env \<and> parse_body (body' (apply_event sample_body)) = Inr sample_body \<and>
   valid_body sample_body \<and> dynamo_ok world0 \<and> sfn_ok world0 \<and> ses_ok world0 \<and>
   started world0 = [] \<and>
   (\<exists>m. sent (log (snd (Create sample_env 1743465600000 ''AQ+b/c='' (apply_event sample_body)
                          world0))) = [m] \<and>
        ToAddresses m = [Some ''approver@example.com''] \<and>
        sublist ''<a href="https://api.example.com/dev/process-approval?requestId=LEAVE-1743465600000&action=approve&taskToken=AQ%2Bb%2Fc%3D"''
          (HtmlData m) \<and>
        sublist ''<a href="https://api.example.com/dev/process-approval?requestId=LEAVE-1743465600000&action=reject&taskToken=AQ%2Bb%2Fc%3D"''
          (HtmlData m)) \<and>
   decodeURIComponent ''AQ%2Bb%2Fc%3D'' = Some ''AQ+b/c='' \<and>
   fst (Create sample_env 1743465600000 ''AQ+b/c='' (apply_event sample_body) world0) =
     \<lparr> statusCode = 200, headers = [],
       body = Json [(''message'', ''Leave applied''), (''requestId'', ''LEAVE-1743465600000'')] \<rparr>\<close>
proof -
  have o: "dynamo_ok world0" "sfn_ok world0" "ses_ok world0" "started world0 = []"
    and l: "sent (log world0) = []"
    by (simp_all add: world0_def)
  have c: "interp (domainName (requestContext (apply_event sample_body))) = ''api.example.com''"
    "interp (stage (requestContext (apply_event sample_body))) = ''dev''"
    "sample_body ''approverEmail'' = Some ''approver@example.com''"
    by (simp_all add: apply_event_def sample_context_def sample_body_def test_body_def)
  note R = resume_links [OF sample_facts(1-3) o, of 1743465600000 "''AQ+b/c=''"]
  note T = conjunct1 [OF R]
  note D = R [THEN conjunct2, THEN conjunct2, THEN conjunct2, THEN conjunct2, THEN conjunct2,
    THEN conjunct2, THEN conjunct2]
  have d: "decodeURIComponent ''AQ%2Bb%2Fc%3D'' = Some ''AQ+b/c=''"
    using conjunct1 [OF D] by (simp only: sample_token)
  have f: \<open>fst (Create sample_env 1743465600000 ''AQ+b/c='' (apply_event sample_body) world0) =
     \<lparr> statusCode = 200, headers = [],
       body = Json [(''message'', ''Leave applied''), (''requestId'', ''LEAVE-1743465600000'')] \<rparr>\<close>
    using conjunct1 [OF conjunct2 [OF conjunct2 [OF D]]] by (simp add: sample_now)
  have \<open>\<exists>m. sent (log (snd (Create sample_env 1743465600000 ''AQ+b/c='' (apply_event sample_body)
                          world0))) = [m] \<and>
        ToAddresses m = [Some ''approver@example.com''] \<and>
        sublist ''<a href="https://api.example.com/dev/process-approval?requestId=LEAVE-1743465600000&action=approve&taskToken=AQ%2Bb%2Fc%3D"''
          (HtmlData m) \<and>
        sublist ''<a href="https://api.example.com/dev/process-approval?requestId=LEAVE-1743465600000&action=reject&taskToken=AQ%2Bb%2Fc%3D"''
          (HtmlData m)\<close>
    using T by (simp add: l c sample_now sample_token)
  with sample_facts(1-3) o d f show ?thesis by (intro conjI)
qed

end
